theory Spec2Isabelle
  imports Complex_Main
begin

section \<open>JavaScript values and numbers\<close>

text \<open>
  The receiver is one JavaScript file, \<^verbatim>\<open>src/receiver.js\<close>. Its data are JavaScript
  values: whatever the sender puts into a message is stored and later used in arithmetic,
  so the model keeps the dynamic types.

  A number is a finite value, an infinity or NaN. A finite double is modelled by the real
  it denotes, and the two zeros are one value (no expression of the program divides by a
  negative zero). In the visualizers the arithmetic of finite numbers is exact: rounding
  and overflow of IEEE doubles are not modelled there. In the decay of the render loop
  the products are rounded, since what the decay does to a small value depends on it:
  the rounding of a real to the nearest double is the parameter \<open>rd\<close> of the model.
\<close>

datatype jsnum = Fin real | PInf | NInf | NaN

datatype jsval =
    JUndefined
  | JNull
  | JBool bool
  | JNum jsnum
  | JStr string
  | JArr "jsval list"
  | JObj "(string \<times> jsval) list"

text \<open>What the program can throw: \<^verbatim>\<open>data.type\<close> on null or undefined is a TypeError,
  and the host's typed-array constructor raises a RangeError on a bad length.\<close>

datatype error = TypeError | RangeError

fun js_neg :: "jsnum \<Rightarrow> jsnum" where
  "js_neg (Fin a) = Fin (- a)"
| "js_neg PInf = NInf"
| "js_neg NInf = PInf"
| "js_neg NaN = NaN"

fun js_add :: "jsnum \<Rightarrow> jsnum \<Rightarrow> jsnum" where
  "js_add (Fin a) (Fin b) = Fin (a + b)"
| "js_add NaN _ = NaN"
| "js_add _ NaN = NaN"
| "js_add PInf NInf = NaN"
| "js_add NInf PInf = NaN"
| "js_add PInf _ = PInf"
| "js_add _ PInf = PInf"
| "js_add NInf _ = NInf"
| "js_add _ NInf = NInf"

definition js_sub :: "jsnum \<Rightarrow> jsnum \<Rightarrow> jsnum" where
  "js_sub a b = js_add a (js_neg b)"

fun js_mul :: "jsnum \<Rightarrow> jsnum \<Rightarrow> jsnum" where
  "js_mul (Fin a) (Fin b) = Fin (a * b)"
| "js_mul NaN _ = NaN"
| "js_mul _ NaN = NaN"
| "js_mul PInf (Fin b) = (if b = 0 then NaN else if 0 < b then PInf else NInf)"
| "js_mul NInf (Fin b) = (if b = 0 then NaN else if 0 < b then NInf else PInf)"
| "js_mul (Fin a) PInf = (if a = 0 then NaN else if 0 < a then PInf else NInf)"
| "js_mul (Fin a) NInf = (if a = 0 then NaN else if 0 < a then NInf else PInf)"
| "js_mul PInf PInf = PInf"
| "js_mul PInf NInf = NInf"
| "js_mul NInf PInf = NInf"
| "js_mul NInf NInf = PInf"

text \<open>The product of two doubles as the machine gives it: the exact product, rounded.\<close>

fun round_mul :: "(real \<Rightarrow> real) \<Rightarrow> jsnum \<Rightarrow> jsnum \<Rightarrow> jsnum" where
  "round_mul rd (Fin a) (Fin b) = Fin (rd (a * b))"
| "round_mul rd a b = js_mul a b"

fun js_div :: "jsnum \<Rightarrow> jsnum \<Rightarrow> jsnum" where
  "js_div (Fin a) (Fin b) =
     (if b = 0 then (if a = 0 then NaN else if 0 < a then PInf else NInf)
      else Fin (a / b))"
| "js_div NaN _ = NaN"
| "js_div _ NaN = NaN"
| "js_div (Fin a) _ = Fin 0"
| "js_div PInf (Fin b) = (if 0 \<le> b then PInf else NInf)"
| "js_div NInf (Fin b) = (if 0 \<le> b then NInf else PInf)"
| "js_div _ _ = NaN"

text \<open>The remainder \<^verbatim>\<open>a % b\<close> has the sign of the dividend.\<close>

definition js_trunc :: "real \<Rightarrow> int" where
  "js_trunc r = (if 0 \<le> r then \<lfloor>r\<rfloor> else \<lceil>r\<rceil>)"

fun js_rem :: "jsnum \<Rightarrow> jsnum \<Rightarrow> jsnum" where
  "js_rem (Fin a) (Fin b) =
     (if b = 0 then NaN else Fin (a - b * of_int (js_trunc (a / b))))"
| "js_rem NaN _ = NaN"
| "js_rem _ NaN = NaN"
| "js_rem (Fin a) _ = Fin a"
| "js_rem _ _ = NaN"

fun js_lt :: "jsnum \<Rightarrow> jsnum \<Rightarrow> bool" where
  "js_lt (Fin a) (Fin b) = (a < b)"
| "js_lt NaN _ = False"
| "js_lt _ NaN = False"
| "js_lt NInf NInf = False"
| "js_lt NInf _ = True"
| "js_lt _ NInf = False"
| "js_lt PInf _ = False"
| "js_lt _ PInf = True"

definition js_gt :: "jsnum \<Rightarrow> jsnum \<Rightarrow> bool" where
  "js_gt a b = js_lt b a"

fun Math_max :: "jsnum \<Rightarrow> jsnum \<Rightarrow> jsnum" where
  "Math_max NaN _ = NaN"
| "Math_max _ NaN = NaN"
| "Math_max a b = (if js_lt a b then b else a)"

fun Math_sqrt :: "jsnum \<Rightarrow> jsnum" where
  "Math_sqrt (Fin a) = (if a < 0 then NaN else Fin (sqrt a))"
| "Math_sqrt PInf = PInf"
| "Math_sqrt NInf = NaN"
| "Math_sqrt NaN = NaN"

fun Math_floor :: "jsnum \<Rightarrow> jsnum" where
  "Math_floor (Fin a) = Fin (of_int \<lfloor>a\<rfloor>)"
| "Math_floor n = n"

fun Math_abs :: "jsnum \<Rightarrow> jsnum" where
  "Math_abs (Fin a) = Fin \<bar>a\<bar>"
| "Math_abs NaN = NaN"
| "Math_abs _ = PInf"

text \<open>Truthiness, the operator \<^verbatim>\<open>||\<close> and the read of a property. None of the property
  names this program reads (\<^verbatim>\<open>type\<close>, \<^verbatim>\<open>data\<close>, \<^verbatim>\<open>index\<close> and the feature names) is a
  built-in property of a string, a number, a boolean or an array, so reading one from
  such a value gives undefined. An object is the association list of its own properties
  (with distinct keys when it is well formed). The read from null or undefined throws;
  it is written out where the program does it, in \<open>handleMessage\<close>.\<close>

fun truthy :: "jsval \<Rightarrow> bool" where
  "truthy JUndefined = False"
| "truthy JNull = False"
| "truthy (JBool b) = b"
| "truthy (JNum (Fin r)) = (r \<noteq> 0)"
| "truthy (JNum NaN) = False"
| "truthy (JNum _) = True"
| "truthy (JStr s) = (s \<noteq> [])"
| "truthy (JArr _) = True"
| "truthy (JObj _) = True"

definition js_or :: "jsval \<Rightarrow> jsval \<Rightarrow> jsval" where
  "js_or a b = (if truthy a then a else b)"

fun get_prop :: "jsval \<Rightarrow> string \<Rightarrow> jsval" where
  "get_prop (JObj kvs) k = (case map_of kvs k of Some v \<Rightarrow> v | None \<Rightarrow> JUndefined)"
| "get_prop _ k = JUndefined"

definition nullish :: "jsval \<Rightarrow> bool" where
  "nullish v = (v = JUndefined \<or> v = JNull)"

text \<open>The conversion to a number that \<^verbatim>\<open>*\<close> applies to an operand. What the host does
  with a string, an array or an object (parsing the string, or the string of the
  object) is the parameter \<open>conv\<close>.\<close>

fun ToNumber :: "(jsval \<Rightarrow> jsnum) \<Rightarrow> jsval \<Rightarrow> jsnum" where
  "ToNumber conv JUndefined = NaN"
| "ToNumber conv JNull = Fin 0"
| "ToNumber conv (JBool b) = Fin (if b then 1 else 0)"
| "ToNumber conv (JNum n) = n"
| "ToNumber conv v = conv v"


section \<open>The program state\<close>

text \<open>The object \<^verbatim>\<open>features\<close> (lines 29 to 37). A scalar field holds whatever value
  \<open>updateFeatures\<close> stored; the two sequence fields are always Float32Arrays, modelled by
  the list of their elements.\<close>

record FeatureState =
  energyLow :: jsval
  energyMid :: jsval
  energyHigh :: jsval
  beatPulse :: jsval
  isBeat :: jsval
  beatCount :: jsval
  beatPhase :: jsval
  tempoBpm :: jsval
  brightness :: jsval
  roughness :: jsval
  sectionEnergy :: jsval
  amplitude :: jsval
  waveform :: "jsnum list"
  fftMagnitudes :: "jsnum list"

text \<open>A particle of the nebula (line 141) and a ring of the tunnel (line 223). The fields
  \<open>p_size\<close>, \<open>p_life\<close>, \<open>ring_hue\<close> and \<open>waveOff\<close> are written once, from \<^verbatim>\<open>Math.random()\<close>,
  and are finite.\<close>

record particle =
  p_x :: jsnum
  p_y :: jsnum
  p_vx :: jsnum
  p_vy :: jsnum
  p_size :: real
  p_hue :: jsnum
  p_life :: real

record ring =
  radius :: jsnum
  thickness :: jsnum
  alpha :: jsnum
  ring_hue :: real
  waveOff :: real
  waveAmp :: jsnum

text \<open>The globals of the script (lines 26 to 40, 136 and 211), and \<open>sent\<close>: the calls of
  \<^verbatim>\<open>sendCustomMessage\<close>, oldest first, each with its three arguments (the namespace, the
  sender it is addressed to, the message). The surface size and the clocks are
  finite numbers given by the host. \<open>initial_state\<close> is the state when the script has been
  read: \<open>initNebula\<close> then fills the particles from \<^verbatim>\<open>Math.random()\<close>, and no statement below
  depends on what the particles are.\<close>

record receiver =
  features :: FeatureState
  activeVizIndex :: jsval
  lastFeatureTime :: real
  time :: real
  width :: real
  height :: real
  nebulaParticles :: "particle list"
  tunnelRings :: "ring list"
  sent :: "(string \<times> jsval \<times> jsval) list"

definition initial_features :: FeatureState where
  "initial_features =
     \<lparr> energyLow = JNum (Fin 0), energyMid = JNum (Fin 0), energyHigh = JNum (Fin 0),
       beatPulse = JNum (Fin 0), isBeat = JBool False, beatCount = JNum (Fin 0),
       beatPhase = JNum (Fin 0), tempoBpm = JNum (Fin 120),
       brightness = JNum (Fin 0.5), roughness = JNum (Fin 0),
       sectionEnergy = JNum (Fin 0),
       amplitude = JNum (Fin 0),
       waveform = replicate 128 (Fin 0),
       fftMagnitudes = replicate 64 (Fin 0) \<rparr>"

definition initial_state :: receiver where
  "initial_state =
     \<lparr> features = initial_features, activeVizIndex = JNum (Fin 0), lastFeatureTime = 0,
       time = 0, width = 1920, height = 1080, nebulaParticles = [], tunnelRings = [],
       sent = [] \<rparr>"

section \<open>The protocol router\<close>

text \<open>\<open>updateFeatures\<close> (lines 102 to 118). The twelve assignments of lines 104 to 115
  cannot throw. \<^verbatim>\<open>new Float32Array(v)\<close> is the host's constructor, the parameter \<open>F\<close>: it
  returns the elements of the new array or throws. When it throws, the assignments made
  before it stay: the left result carries the features as they are at the throw.\<close>

definition assign_scalars :: "jsval \<Rightarrow> FeatureState \<Rightarrow> FeatureState" where
  "assign_scalars f fs =
     fs \<lparr> energyLow := js_or (get_prop f ''energyLow'') (JNum (Fin 0)),
          energyMid := js_or (get_prop f ''energyMid'') (JNum (Fin 0)),
          energyHigh := js_or (get_prop f ''energyHigh'') (JNum (Fin 0)),
          beatPulse := js_or (get_prop f ''beatPulse'') (JNum (Fin 0)),
          isBeat := js_or (get_prop f ''isBeat'') (JBool False),
          beatCount := js_or (get_prop f ''beatCount'') (JNum (Fin 0)),
          beatPhase := js_or (get_prop f ''beatPhase'') (JNum (Fin 0)),
          tempoBpm := js_or (get_prop f ''tempoBpm'') (JNum (Fin 120)),
          brightness := js_or (get_prop f ''brightness'') (JNum (Fin 0.5)),
          roughness := js_or (get_prop f ''roughness'') (JNum (Fin 0)),
          sectionEnergy := js_or (get_prop f ''sectionEnergy'') (JNum (Fin 0)),
          amplitude := js_or (get_prop f ''amplitude'') (JNum (Fin 0)) \<rparr>"

definition assign_waveform ::
  "(jsval \<Rightarrow> error + jsnum list) \<Rightarrow> jsval \<Rightarrow> FeatureState \<Rightarrow> error + FeatureState" where
  "assign_waveform F f fs =
     (if truthy (get_prop f ''waveform'')
      then (case F (get_prop f ''waveform'') of
              Inl e \<Rightarrow> Inl e
            | Inr a \<Rightarrow> Inr (fs \<lparr> waveform := a \<rparr>))
      else Inr fs)"

definition assign_fftMagnitudes ::
  "(jsval \<Rightarrow> error + jsnum list) \<Rightarrow> jsval \<Rightarrow> FeatureState \<Rightarrow> error + FeatureState" where
  "assign_fftMagnitudes F f fs =
     (if truthy (get_prop f ''fftMagnitudes'')
      then (case F (get_prop f ''fftMagnitudes'') of
              Inl e \<Rightarrow> Inl e
            | Inr a \<Rightarrow> Inr (fs \<lparr> fftMagnitudes := a \<rparr>))
      else Inr fs)"

definition updateFeatures ::
  "(jsval \<Rightarrow> error + jsnum list) \<Rightarrow> jsval \<Rightarrow> FeatureState
     \<Rightarrow> (error \<times> FeatureState) + FeatureState" where
  "updateFeatures F f fs =
     (if \<not> truthy f then Inr fs
      else
        let s1 = assign_scalars f fs in
        case assign_waveform F f s1 of
          Inl e \<Rightarrow> Inl (e, s1)
        | Inr s2 \<Rightarrow>
            (case assign_fftMagnitudes F f s2 of
               Inl e \<Rightarrow> Inl (e, s2)
             | Inr s3 \<Rightarrow> Inr s3))"

text \<open>\<open>handleMessage\<close> (lines 80 to 100). \<^verbatim>\<open>JSON.parse\<close> is the parameter \<open>JSON_parse\<close>
  (\<open>None\<close> when it throws, which the \<^verbatim>\<open>catch\<close> turns into a return), and \<open>now\<close> is what
  \<^verbatim>\<open>performance.now()\<close> returns at line 88. \<^verbatim>\<open>data.type\<close> throws a TypeError when
  \<open>data\<close> is null or undefined. The \<^verbatim>\<open>switch\<close> compares with \<^verbatim>\<open>===\<close>. \<open>decode\<close> is
  lines 81 to 83: a string is parsed, any other payload is taken as it is.\<close>

definition NAMESPACE :: string where
  "NAMESPACE = ''urn:x-cast:com.grooveglow.viz''"

definition pong :: jsval where
  "pong = JObj [(''type'', JStr ''pong'')]"

definition decode :: "(string \<Rightarrow> jsval option) \<Rightarrow> jsval \<Rightarrow> jsval option" where
  "decode JSON_parse data0 = (case data0 of JStr s \<Rightarrow> JSON_parse s | _ \<Rightarrow> Some data0)"

definition handleMessage ::
  "(string \<Rightarrow> jsval option) \<Rightarrow> (jsval \<Rightarrow> error + jsnum list) \<Rightarrow> real \<Rightarrow> jsval
     \<Rightarrow> receiver \<Rightarrow> (error \<times> receiver) + receiver" where
  "handleMessage JSON_parse F now data0 st =
     (case decode JSON_parse data0 of
        None \<Rightarrow> Inr st
      | Some data \<Rightarrow>
          if nullish data then Inl (TypeError, st)
          else if get_prop data ''type'' = JStr ''features'' then
            (case updateFeatures F (get_prop data ''data'') (features st) of
               Inl (e, fs) \<Rightarrow> Inl (e, st \<lparr> features := fs \<rparr>)
             | Inr fs \<Rightarrow> Inr (st \<lparr> features := fs, lastFeatureTime := now \<rparr>))
          else if get_prop data ''type'' = JStr ''vizIndex'' then
            Inr (st \<lparr> activeVizIndex := js_or (get_prop data ''index'') (JNum (Fin 0)) \<rparr>)
          else if get_prop data ''type'' = JStr ''ping'' then
            Inr (st \<lparr> sent := sent st @ [(NAMESPACE, JUndefined, pong)] \<rparr>)
          else Inr st)"

text \<open>The listener of lines 49 to 51 is registered for \<open>NAMESPACE\<close>: the host calls it with
  the messages of that namespace and with no other. \<open>customMessage ns data\<close> is what a
  message \<open>data\<close> arriving on the namespace \<open>ns\<close> does.\<close>

definition customMessage ::
  "(string \<Rightarrow> jsval option) \<Rightarrow> (jsval \<Rightarrow> error + jsnum list) \<Rightarrow> real \<Rightarrow> string
     \<Rightarrow> jsval \<Rightarrow> receiver \<Rightarrow> (error \<times> receiver) + receiver" where
  "customMessage JSON_parse F now ns data0 st =
     (if ns = NAMESPACE then handleMessage JSON_parse F now data0 st else Inr st)"


section \<open>The visualizers\<close>

text \<open>Calls on the canvas paint and write no variable of the program; they are left out,
  and taken to return. What remains of a draw function is what it writes to the
  particles and the rings, and the indices at which it reads the waveform.\<close>

subsection \<open>Nebula swarm\<close>

text \<open>One pass of the loop body of \<open>drawNebula\<close> over a particle: lines 159 to 181 (the
  velocity, then the position), lines 184 to 187 (the wrap) and line 190 (the hue).\<close>

definition nebula_move ::
  "(jsval \<Rightarrow> jsnum) \<Rightarrow> FeatureState \<Rightarrow> real \<Rightarrow> real \<Rightarrow> particle \<Rightarrow> particle" where
  "nebula_move conv fs w h p =
     (let cx = Fin (w / 2); cy = Fin (h / 2);
          dx = js_sub cx (p_x p); dy = js_sub cy (p_y p);
          dist = js_add (Math_sqrt (js_add (js_mul dx dx) (js_mul dy dy))) (Fin 1);
          attract = js_add (Fin 0.5) (js_mul (ToNumber conv (energyLow fs)) (Fin 3));
          vx1 = js_add (p_vx p) (js_mul (js_mul (js_div dx dist) attract) (Fin 0.01));
          vy1 = js_add (p_vy p) (js_mul (js_mul (js_div dy dist) attract) (Fin 0.01));
          repel = js_add (Fin 3) (js_mul (ToNumber conv (beatPulse fs)) (Fin 8));
          vx2 = (if truthy (isBeat fs) then js_sub vx1 (js_mul (js_div dx dist) repel) else vx1);
          vy2 = (if truthy (isBeat fs) then js_sub vy1 (js_mul (js_div dy dist) repel) else vy1);
          vx3 = js_add vx2 (js_mul (js_div (js_neg dy) dist) (Fin 0.3));
          vy3 = js_add vy2 (js_mul (js_div dx dist) (Fin 0.3));
          vx4 = js_mul vx3 (Fin 0.97);
          vy4 = js_mul vy3 (Fin 0.97)
      in p \<lparr> p_vx := vx4, p_vy := vy4,
             p_x := js_add (p_x p) vx4, p_y := js_add (p_y p) vy4 \<rparr>)"

definition wrap_axis :: "real \<Rightarrow> jsnum \<Rightarrow> jsnum" where
  "wrap_axis extent v =
     (let v1 = (if js_lt v (Fin 0) then js_add v (Fin extent) else v)
      in if js_gt v1 (Fin extent) then js_sub v1 (Fin extent) else v1)"

definition nebula_wrap :: "real \<Rightarrow> real \<Rightarrow> particle \<Rightarrow> particle" where
  "nebula_wrap w h p = p \<lparr> p_x := wrap_axis w (p_x p), p_y := wrap_axis h (p_y p) \<rparr>"

definition nebula_hue :: "(jsval \<Rightarrow> jsnum) \<Rightarrow> FeatureState \<Rightarrow> particle \<Rightarrow> particle" where
  "nebula_hue conv fs p =
     p \<lparr> p_hue := js_rem (js_add (js_add (p_hue p) (Fin 0.5))
                                (js_mul (ToNumber conv (energyHigh fs)) (Fin 2)))
                        (Fin 360) \<rparr>"

definition nebula_particle ::
  "(jsval \<Rightarrow> jsnum) \<Rightarrow> FeatureState \<Rightarrow> real \<Rightarrow> real \<Rightarrow> particle \<Rightarrow> particle" where
  "nebula_particle conv fs w h p = nebula_hue conv fs (nebula_wrap w h (nebula_move conv fs w h p))"

definition drawNebula :: "(jsval \<Rightarrow> jsnum) \<Rightarrow> receiver \<Rightarrow> receiver" where
  "drawNebula conv st =
     st \<lparr> nebulaParticles :=
            map (nebula_particle conv (features st) (width st) (height st)) (nebulaParticles st) \<rparr>"

subsection \<open>Bass tunnel\<close>

definition MAX_RINGS :: nat where
  "MAX_RINGS = 30"

definition pts :: nat where
  "pts = 72"

text \<open>The spawn (lines 220 to 232). The three calls of \<^verbatim>\<open>Math.random()\<close> are the inputs
  \<open>r1\<close> (line 221), \<open>r2\<close> (the hue) and \<open>r3\<close> (the wave offset).\<close>

definition spawn_ring ::
  "(jsval \<Rightarrow> jsnum) \<Rightarrow> FeatureState \<Rightarrow> real \<times> real \<times> real \<Rightarrow> ring list \<Rightarrow> ring list" where
  "spawn_ring conv fs rnd rings =
     (case rnd of (r1, r2, r3) \<Rightarrow>
        let spawnRate = js_add (Fin 0.3) (js_mul (ToNumber conv (energyLow fs)) (Fin 4))
        in if js_lt (Fin r1) (js_mul spawnRate (Fin 0.016)) \<or> truthy (isBeat fs) then
             (if length rings < MAX_RINGS then
                rings @
                [\<lparr> radius = (if truthy (isBeat fs) then Fin 8 else Fin 3),
                   thickness =
                     (if truthy (isBeat fs)
                      then js_add (Fin 4) (js_mul (ToNumber conv (beatPulse fs)) (Fin 8))
                      else js_add (Fin 2) (js_mul (ToNumber conv (energyLow fs)) (Fin 4))),
                   alpha = Fin 1,
                   ring_hue = r2 * 60,
                   waveOff = r3,
                   waveAmp = js_add (Fin 0.3) (js_mul (ToNumber conv (amplitude fs)) (Fin 1.5)) \<rparr>]
              else rings)
           else rings)"

text \<open>The loop of lines 238 to 269 runs from the last ring down to the first; a ring that
  has expired is spliced out at its index, which moves no ring still to be visited.
  \<open>ring_loop speed maxR n rings\<close> is the loop when \<open>n\<close> rings remain to be visited, the
  next one at index \<open>n - 1\<close>.\<close>

definition advance_ring :: "jsnum \<Rightarrow> real \<Rightarrow> ring \<Rightarrow> ring" where
  "advance_ring speed maxR rg =
     (let r = js_add (radius rg) (js_mul speed (Fin 0.016))
      in rg \<lparr> radius := r,
              alpha := Math_max (Fin 0) (js_sub (Fin 1) (js_div r (Fin maxR))) \<rparr>)"

definition expired :: "real \<Rightarrow> ring \<Rightarrow> bool" where
  "expired maxR rg = (js_gt (radius rg) (Fin maxR) \<or> js_lt (alpha rg) (Fin 0.02))"

fun ring_loop :: "jsnum \<Rightarrow> real \<Rightarrow> nat \<Rightarrow> ring list \<Rightarrow> ring list" where
  "ring_loop speed maxR 0 rings = rings"
| "ring_loop speed maxR (Suc i) rings =
     (let rg = advance_ring speed maxR (rings ! i)
      in if expired maxR rg
         then ring_loop speed maxR i (take i rings @ drop (Suc i) rings)
         else ring_loop speed maxR i (rings [i := rg]))"

definition drawBassTunnel ::
  "(jsval \<Rightarrow> jsnum) \<Rightarrow> real \<times> real \<times> real \<Rightarrow> receiver \<Rightarrow> receiver" where
  "drawBassTunnel conv rnd st =
     (let fs = features st;
          maxR = min (width st) (height st) * 0.45;
          rings = spawn_ring conv fs rnd (tunnelRings st);
          speed = js_add (Fin 80) (js_mul (ToNumber conv (energyLow fs)) (Fin 300))
      in st \<lparr> tunnelRings := ring_loop speed maxR (length rings) rings \<rparr>)"

text \<open>The index \<^verbatim>\<open>wIdx\<close> of line 257 for the point \<open>p\<close> of a ring, and the indices a ring
  computes in one frame (\<open>p\<close> from 0 to \<open>pts\<close>, when the waveform is not empty).\<close>

definition ring_wIdx :: "real \<Rightarrow> nat \<Rightarrow> nat \<Rightarrow> jsnum" where
  "ring_wIdx off len p =
     js_rem (Math_floor (js_mul (js_add (js_div (Fin (real p)) (Fin (real pts))) (Fin off))
                                (Fin (real len))))
            (Fin (real len))"

definition ring_indices :: "ring \<Rightarrow> jsnum list \<Rightarrow> jsnum list" where
  "ring_indices rg wave =
     (if length wave > 0 then map (ring_wIdx (waveOff rg) (length wave)) [0 ..< Suc pts]
      else [])"

subsection \<open>Ribbon flow and pulse grid\<close>

text \<open>Both only paint. The index \<^verbatim>\<open>wIdx\<close> of line 295 for ribbon \<open>r\<close> at abscissa \<open>x\<close>, and
  the indices of one frame: \<open>r\<close> from 0 to 5, \<open>x\<close> from 0 in steps of 4 while \<open>x \<le> width\<close>.\<close>

definition ribbon_wIdx :: "real \<Rightarrow> real \<Rightarrow> nat \<Rightarrow> nat \<Rightarrow> real \<Rightarrow> jsnum" where
  "ribbon_wIdx w tm len r x =
     js_rem (Math_floor (js_mul (js_add (js_add (js_div (Fin x) (Fin w)) (Fin (real r * 0.1)))
                                        (Fin (tm * 0.05)))
                                (Fin (real len))))
            (Fin (real len))"

definition ribbon_xs :: "real \<Rightarrow> real list" where
  "ribbon_xs w = map (\<lambda>k. 4 * real k) [0 ..< nat (\<lfloor>w / 4\<rfloor> + 1)]"

definition ribbon_indices :: "real \<Rightarrow> real \<Rightarrow> jsnum list \<Rightarrow> jsnum list" where
  "ribbon_indices w tm wave =
     (if length wave > 0
      then concat (map (\<lambda>r. map (ribbon_wIdx w tm (length wave) r) (ribbon_xs w)) [0 ..< 6])
      else [])"

text \<open>The read \<^verbatim>\<open>waveform[i]\<close> of a typed array: the element when \<open>i\<close> is an integer
  within the array, undefined otherwise.\<close>

definition array_get :: "jsnum list \<Rightarrow> jsnum \<Rightarrow> jsval" where
  "array_get a i =
     (case i of
        Fin r \<Rightarrow>
          (if r = of_int \<lfloor>r\<rfloor> \<and> 0 \<le> r \<and> r < real (length a) then JNum (a ! nat \<lfloor>r\<rfloor>)
           else JUndefined)
      | _ \<Rightarrow> JUndefined)"

definition drawRibbonFlow :: "receiver \<Rightarrow> receiver" where
  "drawRibbonFlow st = st"

definition drawPulseGrid :: "receiver \<Rightarrow> receiver" where
  "drawPulseGrid st = st"

section \<open>The render loop\<close>

text \<open>\<open>render\<close> (lines 345 to 373) in its three steps: the clock of line 346, the decay
  of lines 353 to 361 (\<open>decay\<close> is lines 355 to 360, \<open>decayIfStale\<close> the test around
  them) and the \<^verbatim>\<open>switch\<close> of lines 364 to 370 (\<open>dispatch\<close>), which compares with
  \<^verbatim>\<open>===\<close>. \<open>now\<close> is what \<^verbatim>\<open>performance.now()\<close> returns at line 353, \<open>rnd\<close> the values of
  \<^verbatim>\<open>Math.random()\<close> of the frame. In the decay \<open>rd\<close> rounds a real to the nearest double:
  the literals \<^verbatim>\<open>0.9\<close> and \<^verbatim>\<open>0.95\<close> are the doubles \<open>rd 0.9\<close> and \<open>rd 0.95\<close>, and each
  product is rounded (a product with a factor between 0 and 1 cannot overflow).\<close>

definition decay ::
  "(real \<Rightarrow> real) \<Rightarrow> (jsval \<Rightarrow> jsnum) \<Rightarrow> FeatureState \<Rightarrow> FeatureState" where
  "decay rd conv fs =
     fs \<lparr> beatPulse := JNum (round_mul rd (ToNumber conv (beatPulse fs)) (Fin (rd 0.9))),
          amplitude := JNum (round_mul rd (ToNumber conv (amplitude fs)) (Fin (rd 0.95))),
          energyLow := JNum (round_mul rd (ToNumber conv (energyLow fs)) (Fin (rd 0.95))),
          energyMid := JNum (round_mul rd (ToNumber conv (energyMid fs)) (Fin (rd 0.95))),
          energyHigh := JNum (round_mul rd (ToNumber conv (energyHigh fs)) (Fin (rd 0.95))),
          isBeat := JBool False \<rparr>"

definition decayIfStale ::
  "(real \<Rightarrow> real) \<Rightarrow> (jsval \<Rightarrow> jsnum) \<Rightarrow> real \<Rightarrow> receiver \<Rightarrow> receiver" where
  "decayIfStale rd conv now st =
     (if now - lastFeatureTime st > 200 then st \<lparr> features := decay rd conv (features st) \<rparr>
      else st)"

definition dispatch ::
  "(jsval \<Rightarrow> jsnum) \<Rightarrow> real \<times> real \<times> real \<Rightarrow> receiver \<Rightarrow> receiver" where
  "dispatch conv rnd st =
     (if activeVizIndex st = JNum (Fin 0) then drawNebula conv st
      else if activeVizIndex st = JNum (Fin 1) then drawBassTunnel conv rnd st
      else if activeVizIndex st = JNum (Fin 2) then drawRibbonFlow st
      else if activeVizIndex st = JNum (Fin 3) then drawPulseGrid st
      else drawNebula conv st)"

definition render ::
  "(real \<Rightarrow> real) \<Rightarrow> (jsval \<Rightarrow> jsnum) \<Rightarrow> real \<Rightarrow> real \<times> real \<times> real
     \<Rightarrow> receiver \<Rightarrow> receiver" where
  "render rd conv now rnd st =
     dispatch conv rnd (decayIfStale rd conv now (st \<lparr> time := time st + 0.016 \<rparr>))"

section \<open>Runs\<close>

text \<open>The host calls the message listener, the frame callback and the resize listener one
  at a time. An exception that leaves \<open>handleMessage\<close> ends that call only: the state is
  as it was at the throw, which is what \<open>after\<close> reads from either result.\<close>

datatype event =
    Message jsval real
  | Frame real "real \<times> real \<times> real"
  | Resize real real

fun after :: "(error \<times> 's) + 's \<Rightarrow> 's" where
  "after (Inl (e, st)) = st"
| "after (Inr st) = st"

fun step ::
  "(real \<Rightarrow> real) \<Rightarrow> (jsval \<Rightarrow> jsnum) \<Rightarrow> (string \<Rightarrow> jsval option)
     \<Rightarrow> (jsval \<Rightarrow> error + jsnum list) \<Rightarrow> receiver \<Rightarrow> event \<Rightarrow> receiver" where
  "step rd conv JSON_parse F st (Message d now) = after (handleMessage JSON_parse F now d st)"
| "step rd conv JSON_parse F st (Frame now rnd) = render rd conv now rnd st"
| "step rd conv JSON_parse F st (Resize w h) = st \<lparr> width := w, height := h \<rparr>"

definition run ::
  "(real \<Rightarrow> real) \<Rightarrow> (jsval \<Rightarrow> jsnum) \<Rightarrow> (string \<Rightarrow> jsval option)
     \<Rightarrow> (jsval \<Rightarrow> error + jsnum list) \<Rightarrow> receiver \<Rightarrow> event list \<Rightarrow> receiver" where
  "run rd conv JSON_parse F st evs = foldl (step rd conv JSON_parse F) st evs"


section \<open>Vocabulary of the statements\<close>

text \<open>The scalar fields that \<open>updateFeatures\<close> assigns, each with the name it reads from
  the update and the default of its line (lines 104 to 115).\<close>

definition scalar_fields :: "((FeatureState \<Rightarrow> jsval) \<times> string \<times> jsval) list" where
  "scalar_fields =
     [(energyLow, ''energyLow'', JNum (Fin 0)),
      (energyMid, ''energyMid'', JNum (Fin 0)),
      (energyHigh, ''energyHigh'', JNum (Fin 0)),
      (beatPulse, ''beatPulse'', JNum (Fin 0)),
      (isBeat, ''isBeat'', JBool False),
      (beatCount, ''beatCount'', JNum (Fin 0)),
      (beatPhase, ''beatPhase'', JNum (Fin 0)),
      (tempoBpm, ''tempoBpm'', JNum (Fin 120)),
      (brightness, ''brightness'', JNum (Fin 0.5)),
      (roughness, ''roughness'', JNum (Fin 0)),
      (sectionEnergy, ''sectionEnergy'', JNum (Fin 0)),
      (amplitude, ''amplitude'', JNum (Fin 0))]"

text \<open>The fields that the decay of lines 355 to 359 multiplies, each with its factor.\<close>

definition decayed_fields :: "((FeatureState \<Rightarrow> jsval) \<times> real) list" where
  "decayed_fields =
     [(beatPulse, 0.9), (amplitude, 0.95), (energyLow, 0.95), (energyMid, 0.95),
      (energyHigh, 0.95)]"

text \<open>What is taken of the rounding to the nearest double: it keeps the order, it leaves a
  double as it is, and 0 and 1 are doubles. A value \<open>v\<close> is a double when \<open>rd v = v\<close>.\<close>

definition rounding :: "(real \<Rightarrow> real) \<Rightarrow> bool" where
  "rounding rd =
     ((\<forall>x y. x \<le> y \<longrightarrow> rd x \<le> rd y) \<and> (\<forall>x. rd (rd x) = rd x) \<and> rd 0 = 0 \<and> rd 1 = 1)"

text \<open>The value a decayed field holds after \<open>n\<close> decays when it held \<open>v\<close>: each decay is the
  rounded product with the double of the factor \<open>k\<close>.\<close>

definition attenuate :: "(real \<Rightarrow> real) \<Rightarrow> real \<Rightarrow> nat \<Rightarrow> real \<Rightarrow> real" where
  "attenuate rd k n v = ((\<lambda>x. rd (x * rd k)) ^^ n) v"

text \<open>A frame is stale for a timestamp \<open>t\<close> when it runs more than 200 ms after \<open>t\<close>.\<close>

definition stale_frame :: "real \<Rightarrow> event \<Rightarrow> bool" where
  "stale_frame t ev = (case ev of Frame now rnd \<Rightarrow> now - t > 200 | _ \<Rightarrow> False)"

text \<open>What the visualizers take from the host: \<^verbatim>\<open>Math.random()\<close> is never negative, and
  a resize gives a surface at least one pixel wide. These two facts keep the clock, the
  width and the wave offsets of the rings in the range that the sampling of the
  waveform relies on.\<close>

definition host_event :: "event \<Rightarrow> bool" where
  "host_event ev =
     (case ev of
        Frame now rnd \<Rightarrow> (case rnd of (r1, r2, r3) \<Rightarrow> 0 \<le> r3)
      | Resize w h \<Rightarrow> 1 \<le> w
      | Message d now \<Rightarrow> True)"

definition sampling_state :: "receiver \<Rightarrow> bool" where
  "sampling_state st =
     (0 \<le> time st \<and> 1 \<le> width st \<and> list_all (\<lambda>rg. 0 \<le> waveOff rg) (tunnelRings st))"

section \<open>Hosts for the examples\<close>

text \<open>The theorems hold for every host. The examples below need one to compute with:
  a conversion under which every string, array and object is NaN (what JavaScript gives
  for a non-numeric string and for a plain object), a parser that knows the three
  literals of JSON and refuses every other text, a typed-array constructor that
  takes the numbers of an array as they are and a non-negative length as that many
  zeros, and a rounding to the nearest multiple of \<open>1 / 2 ^ n\<close>. The doubles below
  \<open>1 / 2 ^ 1022\<close> are the multiples of \<open>1 / 2 ^ 1074\<close>, so \<open>grid_round 1074\<close> rounds a product
  that small as the machine does (a tie apart, which goes up here and to the even
  neighbour there); \<open>grid_round 4\<close> is a coarse one to compute with.\<close>

definition grid_round :: "nat \<Rightarrow> real \<Rightarrow> real" where
  "grid_round n x = of_int (round (x * 2 ^ n)) / 2 ^ n"

definition conv_NaN :: "jsval \<Rightarrow> jsnum" where
  "conv_NaN v = NaN"

definition parse_literal :: "string \<Rightarrow> jsval option" where
  "parse_literal s =
     (if s = ''null'' then Some JNull
      else if s = ''true'' then Some (JBool True)
      else if s = ''false'' then Some (JBool False)
      else None)"

definition plain_array :: "jsval \<Rightarrow> error + jsnum list" where
  "plain_array v =
     (case v of
        JArr xs \<Rightarrow> Inr (map (ToNumber conv_NaN) xs)
      | JNum (Fin r) \<Rightarrow> (if r < 0 then Inl RangeError else Inr (replicate (nat \<lfloor>r\<rfloor>) (Fin 0)))
      | _ \<Rightarrow> Inr [])"

text \<open>Messages of the examples: the selection of the bass tunnel, and feature updates
  with a low-band energy of -0.5, with and without a beat.\<close>

definition select_tunnel :: jsval where
  "select_tunnel = JObj [(''type'', JStr ''vizIndex''), (''index'', JNum (Fin 1))]"

definition negative_energy_beat :: jsval where
  "negative_energy_beat =
     JObj [(''type'', JStr ''features''),
           (''data'', JObj [(''energyLow'', JNum (Fin (- 1 / 2))), (''isBeat'', JBool True)])]"



definition some_ring :: ring where
  "some_ring =
     \<lparr> radius = Fin 3, thickness = Fin 2, alpha = Fin 1, ring_hue = 30, waveOff = 1 / 2,
       waveAmp = Fin (3 / 10) \<rparr>"

text \<open>Feature updates of the examples: one with three fields in their nominal ranges,
  and one whose low-band energy is a string.\<close>

definition partial_update :: jsval where
  "partial_update =
     JObj [(''energyLow'', JNum (Fin (4 / 5))), (''amplitude'', JNum (Fin (9 / 10))),
           (''isBeat'', JBool True)]"

definition loud_update :: jsval where
  "loud_update = JObj [(''energyLow'', JStr ''loud'')]"

text \<open>A particle at the centre of the initial surface, fast enough to leave it on both
  axes within one frame.\<close>

definition fast_particle :: particle where
  "fast_particle =
     \<lparr> p_x = Fin 960, p_y = Fin 540, p_vx = Fin 2000, p_vy = Fin (- 1000), p_size = 3,
       p_hue = Fin 10, p_life = 1 / 2 \<rparr>"

text \<open>A particle at rest on the left edge of a surface of 4 by 4, as \<open>initNebula\<close>
  (line 141) builds it there when \<^verbatim>\<open>Math.random()\<close> gives 0 for \<open>x\<close> and 1/2 for \<open>y\<close>, \<open>vx\<close>
  and \<open>vy\<close>; the message of a beat of pulse 1; and the selection of the ribbons.\<close>

definition edge_particle :: particle where
  "edge_particle =
     \<lparr> p_x = Fin 0, p_y = Fin 2, p_vx = Fin 0, p_vy = Fin 0, p_size = 3,
       p_hue = Fin 10, p_life = 1 / 2 \<rparr>"

definition beat_message :: jsval where
  "beat_message =
     JObj [(''type'', JStr ''features''),
           (''data'', JObj [(''isBeat'', JBool True), (''beatPulse'', JNum (Fin 1))])]"

definition select_ribbons :: jsval where
  "select_ribbons = JObj [(''type'', JStr ''vizIndex''), (''index'', JNum (Fin 2))]"

text \<open>A short run: the tunnel is selected, a beat arrives, one frame is drawn.\<close>

definition tunnel_events :: "event list" where
  "tunnel_events =
     [Message select_tunnel 0,
      Message (JObj [(''type'', JStr ''features''), (''data'', partial_update)]) 0,
      Frame 16 (1 / 2, 1 / 2, 1 / 2)]"

section \<open>What a frame does to the features\<close>

text \<open>No draw function writes the features or the timestamp: a frame changes the
  features by the decay only.\<close>

lemma features_dispatch: "features (dispatch conv rnd st) = features st"
  by (simp add: dispatch_def drawNebula_def drawBassTunnel_def drawRibbonFlow_def
        drawPulseGrid_def Let_def)

lemma lastFeatureTime_dispatch: "lastFeatureTime (dispatch conv rnd st) = lastFeatureTime st"
  by (simp add: dispatch_def drawNebula_def drawBassTunnel_def drawRibbonFlow_def
        drawPulseGrid_def Let_def)

lemma features_render:
  "features (render rd conv now rnd st) =
     (if now - lastFeatureTime st > 200 then decay rd conv (features st) else features st)"
  by (simp add: render_def features_dispatch decayIfStale_def)

lemma lastFeatureTime_render: "lastFeatureTime (render rd conv now rnd st) = lastFeatureTime st"
  by (simp add: render_def lastFeatureTime_dispatch decayIfStale_def)

section \<open>The router: ping, empty feature updates, malformed payloads\<close>

lemma get_prop_str_not_nullish: "get_prop d k = JStr s \<Longrightarrow> \<not> nullish d"
  by (auto simp: nullish_def)

text \<open>
  Claim C9. A message whose \<open>type\<close> is \<open>ping\<close>, received as an object or as the text of
  one, makes the router call \<^verbatim>\<open>sendCustomMessage\<close> exactly once: the calls are the earlier
  ones followed by one whose message is the object with the single property \<open>type\<close> of
  value \<open>pong\<close>, on the namespace \<^verbatim>\<open>urn:x-cast:com.grooveglow.viz\<close>, addressed to no
  sender in particular (\<open>undefined\<close>). That namespace is the only one whose messages
  reach the router, so the reply goes out on the namespace the ping came in on. Nothing
  else of the state changes: the features, the active visualizer index and the
  staleness timestamp are as before.
\<close>

theorem ping_sends_one_pong:
  assumes "decode JSON_parse data0 = Some d" and "get_prop d ''type'' = JStr ''ping''"
  shows "handleMessage JSON_parse F now data0 st =
           Inr (st \<lparr> sent := sent st @ [(''urn:x-cast:com.grooveglow.viz'', JUndefined,
                                         JObj [(''type'', JStr ''pong'')])] \<rparr>)
    \<and> (\<forall>ns. customMessage JSON_parse F now ns data0 st =
           (if ns = ''urn:x-cast:com.grooveglow.viz''
            then Inr (st \<lparr> sent := sent st @ [(ns, JUndefined, JObj [(''type'', JStr ''pong'')])] \<rparr>)
            else Inr st))
    \<and> features (after (handleMessage JSON_parse F now data0 st)) = features st
    \<and> activeVizIndex (after (handleMessage JSON_parse F now data0 st)) = activeVizIndex st
    \<and> lastFeatureTime (after (handleMessage JSON_parse F now data0 st)) = lastFeatureTime st"
  using assms
  by (simp add: handleMessage_def customMessage_def NAMESPACE_def pong_def
        get_prop_str_not_nullish)

theorem ping_sends_one_pong_witness:
  "handleMessage parse_literal plain_array 5 (JObj [(''type'', JStr ''ping'')]) initial_state
     = Inr (initial_state \<lparr> sent := [(''urn:x-cast:com.grooveglow.viz'', JUndefined,
                                        JObj [(''type'', JStr ''pong'')])] \<rparr>)"
  using ping_sends_one_pong [of parse_literal "JObj [(''type'', JStr ''ping'')]"
      "JObj [(''type'', JStr ''ping'')]" plain_array 5 initial_state]
  by (simp add: decode_def initial_state_def)

text \<open>
  Claim C10. A \<open>features\<close> message whose \<open>data\<close> is absent, null or otherwise falsy
  leaves every field of the features as it was and still sets the staleness timestamp
  to the arrival instant: the new state is the old one with \<open>lastFeatureTime\<close> replaced.
  A frame drawn no more than 200 ms after that instant therefore does not decay the
  features, however old they are.
\<close>

theorem empty_features_resets_timestamp:
  assumes "decode JSON_parse data0 = Some d" and "get_prop d ''type'' = JStr ''features''"
    and "\<not> truthy (get_prop d ''data'')"
  shows "handleMessage JSON_parse F now data0 st = Inr (st \<lparr> lastFeatureTime := now \<rparr>)
    \<and> features (after (handleMessage JSON_parse F now data0 st)) = features st
    \<and> lastFeatureTime (after (handleMessage JSON_parse F now data0 st)) = now
    \<and> (\<forall>t rnd. t - now \<le> 200 \<longrightarrow>
          features (render rd conv t rnd (after (handleMessage JSON_parse F now data0 st)))
            = features st)"
  using assms
  by (simp add: handleMessage_def get_prop_str_not_nullish updateFeatures_def features_render)

theorem empty_features_resets_timestamp_witness:
  "handleMessage parse_literal plain_array 777
      (JObj [(''type'', JStr ''features''), (''data'', JNull)]) initial_state
     = Inr (initial_state \<lparr> lastFeatureTime := 777 \<rparr>)
   \<and> handleMessage parse_literal plain_array 777
      (JObj [(''type'', JStr ''features'')]) initial_state
     = Inr (initial_state \<lparr> lastFeatureTime := 777 \<rparr>)
   \<and> features (render (grid_round 4) conv_NaN 900 (0, 0, 0)
        (after (handleMessage parse_literal plain_array 777
           (JObj [(''type'', JStr ''features'')]) initial_state)))
     = features initial_state"
proof -
  let ?absent = "JObj [(''type'', JStr ''features'')]"
  let ?null = "JObj [(''type'', JStr ''features''), (''data'', JNull)]"
  have a: "decode parse_literal ?absent = Some ?absent"
      "get_prop ?absent ''type'' = JStr ''features''" "\<not> truthy (get_prop ?absent ''data'')"
    by (simp_all add: decode_def)
  have n: "decode parse_literal ?null = Some ?null"
      "get_prop ?null ''type'' = JStr ''features''" "\<not> truthy (get_prop ?null ''data'')"
    by (simp_all add: decode_def)
  note A = empty_features_resets_timestamp
    [OF a, of plain_array 777 initial_state "grid_round 4" conv_NaN]
  note N = empty_features_resets_timestamp
    [OF n, of plain_array 777 initial_state "grid_round 4" conv_NaN]
  have "(900 :: real) - 777 \<le> 200"
    by simp
  with A have "features (render (grid_round 4) conv_NaN 900 (0, 0, 0)
        (after (handleMessage parse_literal plain_array 777 ?absent initial_state)))
     = features initial_state"
    by blast
  with A N show ?thesis
    by blast
qed

text \<open>A text that \<^verbatim>\<open>JSON.parse\<close> refuses is dropped: the \<^verbatim>\<open>catch\<close> returns.\<close>

lemma unparseable_dropped:
  "JSON_parse s = None \<Longrightarrow> handleMessage JSON_parse F now (JStr s) st = Inr st"
  by (simp add: handleMessage_def decode_def)

text \<open>A payload that is not null or undefined and whose \<open>type\<close> is none of the three
  kinds is dropped too: a number, a boolean, an array, an object of another type.\<close>

lemma unknown_type_dropped:
  assumes "decode JSON_parse data0 = Some d" and "\<not> nullish d"
    and "get_prop d ''type'' \<notin> {JStr ''features'', JStr ''vizIndex'', JStr ''ping''}"
  shows "handleMessage JSON_parse F now data0 st = Inr st"
  using assms by (simp add: handleMessage_def)

text \<open>
  Claim C4. The text \<open>null\<close> is valid JSON and parses to null, a payload that is not an
  object. The router then reads \<^verbatim>\<open>data.type\<close> of null outside the \<^verbatim>\<open>try\<close>: a TypeError
  leaves \<open>handleMessage\<close>, with the state unchanged.
\<close>

theorem null_payload_throws:
  assumes "JSON_parse ''null'' = Some JNull"
  shows "handleMessage JSON_parse F now (JStr ''null'') st = Inl (TypeError, st)
    \<and> handleMessage JSON_parse F now JNull st = Inl (TypeError, st)
    \<and> handleMessage JSON_parse F now JUndefined st = Inl (TypeError, st)"
  using assms by (simp add: handleMessage_def decode_def nullish_def)

theorem null_payload_throws_witness:
  "parse_literal ''null'' = Some JNull
   \<and> handleMessage parse_literal plain_array 5 (JStr ''null'') initial_state
       = Inl (TypeError, initial_state)"
  using null_payload_throws [of parse_literal plain_array 5 initial_state]
  by (simp add: parse_literal_def)

section \<open>The dispatch of the render loop\<close>

text \<open>
  Claim C3. When the active visualizer index is none of the numbers 0, 1, 2 and 3 (for
  example 4, -1, 99, or a value that is not a number), the dispatch of the frame runs
  \<open>drawNebula\<close>, and the whole frame gives the state that the same frame gives from the
  same state with index 0, the stored index apart.
\<close>

theorem unknown_index_draws_nebula:
  assumes "activeVizIndex st \<notin> {JNum (Fin 0), JNum (Fin 1), JNum (Fin 2), JNum (Fin 3)}"
  shows "dispatch conv rnd st = drawNebula conv st
    \<and> render rd conv now rnd st =
        (render rd conv now rnd (st \<lparr> activeVizIndex := JNum (Fin 0) \<rparr>))
          \<lparr> activeVizIndex := activeVizIndex st \<rparr>"
  using assms by (simp add: dispatch_def render_def decayIfStale_def drawNebula_def)

theorem unknown_index_draws_nebula_witness:
  "dispatch conv_NaN (0, 0, 0) (initial_state \<lparr> activeVizIndex := JNum (Fin 4) \<rparr>)
     = drawNebula conv_NaN (initial_state \<lparr> activeVizIndex := JNum (Fin 4) \<rparr>)
   \<and> dispatch conv_NaN (0, 0, 0) (initial_state \<lparr> activeVizIndex := JNum (Fin (- 1)) \<rparr>)
     = drawNebula conv_NaN (initial_state \<lparr> activeVizIndex := JNum (Fin (- 1)) \<rparr>)
   \<and> dispatch conv_NaN (0, 0, 0) (initial_state \<lparr> activeVizIndex := JNum (Fin 99) \<rparr>)
     = drawNebula conv_NaN (initial_state \<lparr> activeVizIndex := JNum (Fin 99) \<rparr>)
   \<and> dispatch conv_NaN (0, 0, 0) (initial_state \<lparr> activeVizIndex := JStr ''two'' \<rparr>)
     = drawNebula conv_NaN (initial_state \<lparr> activeVizIndex := JStr ''two'' \<rparr>)"
  using
    unknown_index_draws_nebula [of "initial_state \<lparr> activeVizIndex := JNum (Fin 4) \<rparr>" conv_NaN "(0, 0, 0)"]
    unknown_index_draws_nebula [of "initial_state \<lparr> activeVizIndex := JNum (Fin (- 1)) \<rparr>" conv_NaN "(0, 0, 0)"]
    unknown_index_draws_nebula [of "initial_state \<lparr> activeVizIndex := JNum (Fin 99) \<rparr>" conv_NaN "(0, 0, 0)"]
    unknown_index_draws_nebula [of "initial_state \<lparr> activeVizIndex := JStr ''two'' \<rparr>" conv_NaN "(0, 0, 0)"]
  by simp


section \<open>The rings of the bass tunnel\<close>

text \<open>The loop of a frame, read as a whole: every ring is advanced, and the rings that
  have not expired are kept, in their order. The general form is the state of the loop
  when \<open>n\<close> rings remain to be visited.\<close>

lemma ring_loop_prefix:
  "n \<le> length rings \<Longrightarrow>
   ring_loop speed maxR n rings =
     filter (\<lambda>g. \<not> expired maxR g) (map (advance_ring speed maxR) (take n rings))
       @ drop n rings"
proof (induction n arbitrary: rings)
  case 0
  then show ?case by simp
next
  case (Suc i)
  then have i: "i < length rings" by simp
  let ?g = "advance_ring speed maxR (rings ! i)"
  show ?case
  proof (cases "expired maxR ?g")
    case True
    have "ring_loop speed maxR (Suc i) rings
            = ring_loop speed maxR i (take i rings @ drop (Suc i) rings)"
      using True by (simp add: Let_def)
    also have "\<dots> = filter (\<lambda>g. \<not> expired maxR g) (map (advance_ring speed maxR) (take i rings))
                      @ drop (Suc i) rings"
      using i by (subst Suc.IH) (simp_all add: min_def)
    finally show ?thesis using True i by (simp add: take_Suc_conv_app_nth)
  next
    case False
    have "ring_loop speed maxR (Suc i) rings = ring_loop speed maxR i (rings [i := ?g])"
      using False by (simp add: Let_def)
    also have "\<dots> = filter (\<lambda>g. \<not> expired maxR g) (map (advance_ring speed maxR) (take i rings))
                      @ ?g # drop (Suc i) rings"
      using i by (subst Suc.IH) (simp_all add: drop_update_cancel upd_conv_take_nth_drop)
    finally show ?thesis using False i by (simp add: take_Suc_conv_app_nth)
  qed
qed

lemma ring_loop_filter:
  "ring_loop speed maxR (length rings) rings =
     filter (\<lambda>g. \<not> expired maxR g) (map (advance_ring speed maxR) rings)"
  by (simp add: ring_loop_prefix)

lemma length_ring_loop:
  "length (ring_loop speed maxR (length rings) rings) \<le> length rings"
proof -
  have "length (filter (\<lambda>g. \<not> expired maxR g) (map (advance_ring speed maxR) rings))
          \<le> length (map (advance_ring speed maxR) rings)"
    by (rule length_filter_le)
  then show ?thesis by (simp add: ring_loop_filter)
qed

lemma length_spawn_ring:
  "length rings \<le> MAX_RINGS \<Longrightarrow> length (spawn_ring conv fs rnd rings) \<le> MAX_RINGS"
  by (cases rnd) (simp add: spawn_ring_def Let_def)

lemma spawn_ring_full:
  "MAX_RINGS \<le> length rings \<Longrightarrow> spawn_ring conv fs rnd rings = rings"
  by (cases rnd) (simp add: spawn_ring_def Let_def)

lemma length_drawBassTunnel:
  assumes "length (tunnelRings st) \<le> MAX_RINGS"
  shows "length (tunnelRings (drawBassTunnel conv rnd st)) \<le> MAX_RINGS"
proof -
  let ?rings = "spawn_ring conv (features st) rnd (tunnelRings st)"
  have "length (tunnelRings (drawBassTunnel conv rnd st)) \<le> length ?rings"
    by (simp add: drawBassTunnel_def Let_def length_ring_loop)
  also have "\<dots> \<le> MAX_RINGS"
    by (rule length_spawn_ring [OF assms])
  finally show ?thesis .
qed

lemma tunnelRings_handleMessage:
  "tunnelRings (after (handleMessage JSON_parse F now d st)) = tunnelRings st"
  by (auto simp: handleMessage_def split: option.splits sum.splits)

lemma length_step:
  "length (tunnelRings st) \<le> MAX_RINGS
     \<Longrightarrow> length (tunnelRings (step rd conv JSON_parse F st ev)) \<le> MAX_RINGS"
  by (cases ev)
     (simp_all add: tunnelRings_handleMessage render_def dispatch_def decayIfStale_def
        drawNebula_def drawRibbonFlow_def drawPulseGrid_def length_drawBassTunnel)

lemma length_run:
  "length (tunnelRings st) \<le> MAX_RINGS
     \<Longrightarrow> length (tunnelRings (run rd conv JSON_parse F st evs)) \<le> MAX_RINGS"
  unfolding run_def by (induction evs arbitrary: st) (simp_all add: length_step)

lemmas eval_defs =
  run_def handleMessage_def decode_def nullish_def updateFeatures_def assign_scalars_def
  assign_waveform_def assign_fftMagnitudes_def js_or_def render_def decayIfStale_def
  dispatch_def drawBassTunnel_def spawn_ring_def Let_def MAX_RINGS_def advance_ring_def
  expired_def js_sub_def js_gt_def initial_state_def

text \<open>
  Claim C5. From a state with at most \<open>MAX_RINGS\<close> = 30 rings (the script starts with
  none), after any sequence of messages, frames and resizes, whatever the features and
  the random draws, there are at most 30 rings; and a spawn attempted when the sequence
  is at capacity leaves the rings as they are.
\<close>

theorem ring_count_never_exceeds_cap:
  assumes "length (tunnelRings st) \<le> MAX_RINGS"
  shows "length (tunnelRings (run rd conv JSON_parse F st evs)) \<le> MAX_RINGS
    \<and> length (tunnelRings (drawBassTunnel conv rnd st)) \<le> MAX_RINGS
    \<and> (length rings = MAX_RINGS \<longrightarrow> spawn_ring conv fs rnd rings = rings)
    \<and> MAX_RINGS = 30"
  using assms by (simp add: length_run length_drawBassTunnel spawn_ring_full) (simp add: MAX_RINGS_def)

theorem ring_count_never_exceeds_cap_witness:
  "length (tunnelRings initial_state) \<le> MAX_RINGS
   \<and> length (tunnelRings (run (grid_round 4) conv_NaN parse_literal plain_array initial_state
        [Message select_tunnel 0, Message negative_energy_beat 0,
         Frame 16 (1 / 2, 1 / 2, 1 / 2), Frame 32 (1 / 2, 1 / 2, 1 / 2)])) \<le> MAX_RINGS
   \<and> spawn_ring conv_NaN (initial_features \<lparr> isBeat := JBool True \<rparr>) (0, 0, 0)
        (replicate 30 some_ring) = replicate 30 some_ring"
  using ring_count_never_exceeds_cap [of initial_state "grid_round 4" conv_NaN parse_literal plain_array
      "[Message select_tunnel 0, Message negative_energy_beat 0,
        Frame 16 (1 / 2, 1 / 2, 1 / 2), Frame 32 (1 / 2, 1 / 2, 1 / 2)]"
      "(0, 0, 0)" "replicate 30 some_ring" "initial_features \<lparr> isBeat := JBool True \<rparr>"]
  by (simp add: initial_state_def MAX_RINGS_def)






section \<open>The wrap of the particles\<close>

lemma wrap_axis_number:
  assumes "0 \<le> extent"
  shows "(js_gt v (Fin extent) \<longrightarrow> wrap_axis extent v = js_sub v (Fin extent))
    \<and> (js_lt v (Fin 0) \<longrightarrow> wrap_axis extent v = js_add v (Fin extent))
    \<and> (\<not> js_gt v (Fin extent) \<and> \<not> js_lt v (Fin 0) \<longrightarrow> wrap_axis extent v = v)"
  using assms by (cases v) (simp_all add: wrap_axis_def js_gt_def Let_def)

lemma wrap_axis_finite:
  assumes "0 \<le> extent"
  shows "(extent < r \<longrightarrow> wrap_axis extent (Fin r) = Fin (0 + (r - extent)) \<and> 0 < r - extent)
    \<and> (extent < r \<longrightarrow> (\<exists>r'. wrap_axis extent (Fin r) = Fin r'
                    \<and> (0 \<le> r' \<and> r' \<le> extent \<longleftrightarrow> r \<le> 2 * extent)))
    \<and> (r < 0 \<longrightarrow> wrap_axis extent (Fin r) = Fin (extent - (0 - r)))
    \<and> (r < 0 \<longrightarrow> (\<exists>r'. wrap_axis extent (Fin r) = Fin r'
                    \<and> (0 \<le> r' \<and> r' \<le> extent \<longleftrightarrow> - extent \<le> r)))
    \<and> (0 \<le> r \<and> r \<le> extent \<longrightarrow> wrap_axis extent (Fin r) = Fin r)"
proof -
  have gt: "wrap_axis extent (Fin r) = Fin (r - extent)" if "extent < r"
    using that assms by (simp add: wrap_axis_def Let_def js_gt_def js_sub_def)
  have lt: "wrap_axis extent (Fin r) = Fin (extent + r)" if "r < 0"
    using that assms by (simp add: wrap_axis_def Let_def js_gt_def js_sub_def)
  have mid: "wrap_axis extent (Fin r) = Fin r" if "0 \<le> r" "r \<le> extent"
    using that by (simp add: wrap_axis_def Let_def js_gt_def)
  show ?thesis
    using assms by (auto simp: gt lt mid)
qed

text \<open>
  Claim C7, as stated, fails: the wrap does not always bring the particle back onto the
  surface, so the torus is not kept. On a surface of 4 by 4 a particle at rest on the
  left edge, at (0, 2), is pushed away from the centre by a beat of pulse 1: the frame
  moves it to x = -7.1101, and the wrap adds the width once, which leaves it at
  x = -3.1101, still off the surface.
\<close>

theorem wrap_leaves_particle_off_surface_counterexample:
  "map p_x (map (nebula_move conv_NaN
        (features (run (grid_round 4) conv_NaN parse_literal plain_array
           (initial_state \<lparr> nebulaParticles := [edge_particle] \<rparr>)
           [Resize 4 4, Message beat_message 0])) 4 4) [edge_particle])
     = [Fin (- 71101 / 10000)]
   \<and> map p_x (nebulaParticles (run (grid_round 4) conv_NaN parse_literal plain_array
        (initial_state \<lparr> nebulaParticles := [edge_particle] \<rparr>)
        [Resize 4 4, Message beat_message 0, Frame 16 (1 / 2, 1 / 2, 1 / 2)]))
     = [Fin (- 31101 / 10000)]
   \<and> (- 31101 / 10000 :: real) < 0"
  by (simp add: beat_message_def edge_particle_def eval_defs drawNebula_def
        nebula_particle_def nebula_hue_def nebula_wrap_def nebula_move_def wrap_axis_def)

text \<open>
  Claim C7, amended. On a surface of at least 1 by 1, every frame that draws the nebula
  gives every particle the wrap of the position it moved to, on each axis with the
  extent of that axis, and the wrap adds or subtracts the extent at most once. A
  coordinate beyond the extent is placed at the edge 0 plus the overflow, which is on
  the surface exactly when the overflow is at most one extent; a coordinate below 0 is
  placed at the far edge minus the overflow, which is on the surface exactly when the
  overflow is at most one extent; a coordinate on the surface stays. The last part says
  the same for every number, finite or not, in the operations of the program.
\<close>

theorem particle_wraps_to_opposite_edge:
  assumes "1 \<le> width st" and "1 \<le> height st"
  shows "length (nebulaParticles (drawNebula conv st)) = length (nebulaParticles st)
    \<and> (\<forall>i < length (nebulaParticles st).
          p_x (nebulaParticles (drawNebula conv st) ! i)
            = wrap_axis (width st)
                (p_x (nebula_move conv (features st) (width st) (height st) (nebulaParticles st ! i)))
        \<and> p_y (nebulaParticles (drawNebula conv st) ! i)
            = wrap_axis (height st)
                (p_y (nebula_move conv (features st) (width st) (height st) (nebulaParticles st ! i))))
    \<and> (activeVizIndex st \<notin> {JNum (Fin 1), JNum (Fin 2), JNum (Fin 3)}
          \<longrightarrow> nebulaParticles (dispatch conv rnd st) = nebulaParticles (drawNebula conv st))
    \<and> (\<forall>extent \<in> {width st, height st}. \<forall>r.
          (extent < r \<longrightarrow> wrap_axis extent (Fin r) = Fin (0 + (r - extent)) \<and> 0 < r - extent)
        \<and> (extent < r \<longrightarrow> (\<exists>r'. wrap_axis extent (Fin r) = Fin r'
                        \<and> (0 \<le> r' \<and> r' \<le> extent \<longleftrightarrow> r \<le> 2 * extent)))
        \<and> (r < 0 \<longrightarrow> wrap_axis extent (Fin r) = Fin (extent - (0 - r)))
        \<and> (r < 0 \<longrightarrow> (\<exists>r'. wrap_axis extent (Fin r) = Fin r'
                        \<and> (0 \<le> r' \<and> r' \<le> extent \<longleftrightarrow> - extent \<le> r)))
        \<and> (0 \<le> r \<and> r \<le> extent \<longrightarrow> wrap_axis extent (Fin r) = Fin r))
    \<and> (\<forall>extent \<in> {width st, height st}. \<forall>v.
          (js_gt v (Fin extent) \<longrightarrow> wrap_axis extent v = js_sub v (Fin extent))
        \<and> (js_lt v (Fin 0) \<longrightarrow> wrap_axis extent v = js_add v (Fin extent))
        \<and> (\<not> js_gt v (Fin extent) \<and> \<not> js_lt v (Fin 0) \<longrightarrow> wrap_axis extent v = v))"
proof (intro conjI)
  show "length (nebulaParticles (drawNebula conv st)) = length (nebulaParticles st)"
    by (simp add: drawNebula_def)
  show "\<forall>i < length (nebulaParticles st).
          p_x (nebulaParticles (drawNebula conv st) ! i)
            = wrap_axis (width st)
                (p_x (nebula_move conv (features st) (width st) (height st) (nebulaParticles st ! i)))
        \<and> p_y (nebulaParticles (drawNebula conv st) ! i)
            = wrap_axis (height st)
                (p_y (nebula_move conv (features st) (width st) (height st) (nebulaParticles st ! i)))"
    by (simp add: drawNebula_def nebula_particle_def nebula_hue_def nebula_wrap_def)
  show "activeVizIndex st \<notin> {JNum (Fin 1), JNum (Fin 2), JNum (Fin 3)}
          \<longrightarrow> nebulaParticles (dispatch conv rnd st) = nebulaParticles (drawNebula conv st)"
    by (simp add: dispatch_def)
  have e: "0 \<le> extent" if "extent \<in> {width st, height st}" for extent
    using that assms by auto
  show "\<forall>extent \<in> {width st, height st}. \<forall>r.
          (extent < r \<longrightarrow> wrap_axis extent (Fin r) = Fin (0 + (r - extent)) \<and> 0 < r - extent)
        \<and> (extent < r \<longrightarrow> (\<exists>r'. wrap_axis extent (Fin r) = Fin r'
                        \<and> (0 \<le> r' \<and> r' \<le> extent \<longleftrightarrow> r \<le> 2 * extent)))
        \<and> (r < 0 \<longrightarrow> wrap_axis extent (Fin r) = Fin (extent - (0 - r)))
        \<and> (r < 0 \<longrightarrow> (\<exists>r'. wrap_axis extent (Fin r) = Fin r'
                        \<and> (0 \<le> r' \<and> r' \<le> extent \<longleftrightarrow> - extent \<le> r)))
        \<and> (0 \<le> r \<and> r \<le> extent \<longrightarrow> wrap_axis extent (Fin r) = Fin r)"
    using wrap_axis_finite [OF e] by blast
  show "\<forall>extent \<in> {width st, height st}. \<forall>v.
          (js_gt v (Fin extent) \<longrightarrow> wrap_axis extent v = js_sub v (Fin extent))
        \<and> (js_lt v (Fin 0) \<longrightarrow> wrap_axis extent v = js_add v (Fin extent))
        \<and> (\<not> js_gt v (Fin extent) \<and> \<not> js_lt v (Fin 0) \<longrightarrow> wrap_axis extent v = v)"
    using wrap_axis_number [OF e] by blast
qed

theorem particle_wraps_to_opposite_edge_witness:
  "1 \<le> width (initial_state \<lparr> nebulaParticles := [fast_particle] \<rparr>)
   \<and> 1 \<le> height (initial_state \<lparr> nebulaParticles := [fast_particle] \<rparr>)
   \<and> p_x (nebula_move conv_NaN initial_features 1920 1080 fast_particle) = Fin 2900
   \<and> p_y (nebula_move conv_NaN initial_features 1920 1080 fast_particle) = Fin (- 430)
   \<and> map p_x (nebulaParticles (drawNebula conv_NaN
        (initial_state \<lparr> nebulaParticles := [fast_particle] \<rparr>))) = [Fin 980]
   \<and> map p_y (nebulaParticles (drawNebula conv_NaN
        (initial_state \<lparr> nebulaParticles := [fast_particle] \<rparr>))) = [Fin 650]
   \<and> wrap_axis 1920 (Fin 700) = Fin 700"
proof -
  let ?st = "initial_state \<lparr> nebulaParticles := [fast_particle] \<rparr>"
  have h: "1 \<le> width ?st" "1 \<le> height ?st"
    by (simp_all add: initial_state_def)
  have d: "width ?st = 1920" "height ?st = 1080" "features ?st = initial_features"
      "nebulaParticles ?st = [fast_particle]"
    by (simp_all add: initial_state_def)
  have x: "p_x (nebula_move conv_NaN initial_features 1920 1080 fast_particle) = Fin 2900"
    and y: "p_y (nebula_move conv_NaN initial_features 1920 1080 fast_particle) = Fin (- 430)"
    by (simp_all add: nebula_move_def fast_particle_def initial_features_def js_sub_def Let_def)
  note W = particle_wraps_to_opposite_edge [OF h, of conv_NaN]
  have l: "length (nebulaParticles (drawNebula conv_NaN ?st)) = 1"
    using W d(4) by simp
  have "p_x (nebulaParticles (drawNebula conv_NaN ?st) ! 0) = wrap_axis 1920 (Fin 2900)"
    and "p_y (nebulaParticles (drawNebula conv_NaN ?st) ! 0) = wrap_axis 1080 (Fin (- 430))"
    using W x y unfolding d by simp_all
  moreover have "wrap_axis 1920 (Fin 2900) = Fin 980" "wrap_axis 1080 (Fin (- 430)) = Fin 650"
    "wrap_axis 1920 (Fin 700) = Fin 700"
    using W unfolding d by simp_all
  moreover obtain q where q: "nebulaParticles (drawNebula conv_NaN ?st) = [q]"
    using l by (cases "nebulaParticles (drawNebula conv_NaN ?st)") simp_all
  ultimately show ?thesis
    using h x y by (simp add: q)
qed

section \<open>The decay of stale features\<close>

lemma stale_step:
  assumes "stale_frame (lastFeatureTime st) ev"
  shows "features (step rd conv JSON_parse F st ev) = decay rd conv (features st)"
    and "lastFeatureTime (step rd conv JSON_parse F st ev) = lastFeatureTime st"
  using assms by (cases ev; simp add: stale_frame_def features_render lastFeatureTime_render)+

text \<open>A run of stale frames applies the decay once per frame and leaves the timestamp.\<close>

lemma stale_run:
  assumes "list_all (stale_frame (lastFeatureTime st)) evs"
  shows "features (run rd conv JSON_parse F st evs) = (decay rd conv ^^ length evs) (features st)
    \<and> lastFeatureTime (run rd conv JSON_parse F st evs) = lastFeatureTime st"
  using assms
proof (induction evs arbitrary: st)
  case Nil
  then show ?case by (simp add: run_def)
next
  case (Cons ev evs)
  have s: "stale_frame (lastFeatureTime st) ev"
    using Cons.prems by simp
  have "list_all (stale_frame (lastFeatureTime (step rd conv JSON_parse F st ev))) evs"
    using Cons.prems by (simp add: stale_step(2) [OF s])
  from Cons.IH [OF this] show ?case
    by (simp add: run_def stale_step [OF s] funpow_swap1)
qed

lemma decay_pow:
  "beatPulse fs = JNum (Fin v)
     \<Longrightarrow> beatPulse ((decay rd conv ^^ n) fs) = JNum (Fin (attenuate rd (9 / 10) n v))"
  "amplitude fs = JNum (Fin v)
     \<Longrightarrow> amplitude ((decay rd conv ^^ n) fs) = JNum (Fin (attenuate rd (19 / 20) n v))"
  "energyLow fs = JNum (Fin v)
     \<Longrightarrow> energyLow ((decay rd conv ^^ n) fs) = JNum (Fin (attenuate rd (19 / 20) n v))"
  "energyMid fs = JNum (Fin v)
     \<Longrightarrow> energyMid ((decay rd conv ^^ n) fs) = JNum (Fin (attenuate rd (19 / 20) n v))"
  "energyHigh fs = JNum (Fin v)
     \<Longrightarrow> energyHigh ((decay rd conv ^^ n) fs) = JNum (Fin (attenuate rd (19 / 20) n v))"
  by (induction n arbitrary: fs v; simp add: decay_def attenuate_def)+

lemma decay_isBeat: "0 < n \<Longrightarrow> isBeat ((decay rd conv ^^ n) fs) = JBool False"
  by (cases n) (simp_all add: decay_def)

text \<open>What the rounding leaves of the attenuation: a double that is not negative goes to
  a double between 0 and itself.\<close>

lemma attenuate_Suc: "attenuate rd k (Suc n) v = rd (attenuate rd k n v * rd k)"
  by (simp add: attenuate_def)

lemma rounding_mono: "rounding rd \<Longrightarrow> x \<le> y \<Longrightarrow> rd x \<le> rd y"
  unfolding rounding_def by blast

lemma rounding_fixed: "rounding rd \<Longrightarrow> rd (rd x) = rd x \<and> rd 0 = 0 \<and> rd 1 = 1"
  unfolding rounding_def by blast

lemma rounding_factor:
  assumes "rounding rd" and "0 \<le> k" and "k \<le> 1"
  shows "0 \<le> rd k" and "rd k \<le> 1"
proof -
  have "rd 0 \<le> rd k" and "rd k \<le> rd 1"
    using assms by (simp_all add: rounding_mono)
  then show "0 \<le> rd k" and "rd k \<le> 1"
    using rounding_fixed [OF assms(1)] by simp_all
qed

lemma rounded_product_bounds:
  assumes "rounding rd" and "0 \<le> k" and "k \<le> 1" and "rd v = v" and "0 \<le> v"
  shows "rd (rd (v * rd k)) = rd (v * rd k)" and "0 \<le> rd (v * rd k)" and "rd (v * rd k) \<le> v"
proof -
  note f = rounding_factor [OF assms(1,2,3)]
  have "0 \<le> v * rd k" and "v * rd k \<le> v"
    using f assms(5) by (simp_all add: mult_left_le)
  then have "rd 0 \<le> rd (v * rd k)" and "rd (v * rd k) \<le> rd v"
    using assms(1) by (simp_all add: rounding_mono)
  then show "0 \<le> rd (v * rd k)" and "rd (v * rd k) \<le> v"
    using rounding_fixed [OF assms(1)] assms(4) by simp_all
  show "rd (rd (v * rd k)) = rd (v * rd k)"
    using rounding_fixed [OF assms(1)] by simp
qed

lemma attenuate_bounds:
  assumes "rounding rd" and "0 \<le> k" and "k \<le> 1" and "rd v = v" and "0 \<le> v"
  shows "rd (attenuate rd k n v) = attenuate rd k n v \<and> 0 \<le> attenuate rd k n v
    \<and> attenuate rd k n v \<le> v"
proof (induction n)
  case 0
  then show ?case using assms(4,5) by (simp add: attenuate_def)
next
  case (Suc n)
  then have a: "rd (attenuate rd k n v) = attenuate rd k n v" "0 \<le> attenuate rd k n v"
      "attenuate rd k n v \<le> v"
    by simp_all
  from rounded_product_bounds [OF assms(1,2,3) a(1,2)] a(3) show ?case
    by (simp add: attenuate_Suc)
qed

lemma attenuate_decreases:
  assumes "rounding rd" and "0 \<le> k" and "k \<le> 1" and "rd v = v" and "0 \<le> v"
  shows "0 \<le> attenuate rd k (Suc n) v" and "attenuate rd k (Suc n) v \<le> attenuate rd k n v"
proof -
  from attenuate_bounds [OF assms, of n]
  have a: "rd (attenuate rd k n v) = attenuate rd k n v" "0 \<le> attenuate rd k n v"
    by simp_all
  from rounded_product_bounds [OF assms(1,2,3) a]
  show "0 \<le> attenuate rd k (Suc n) v" and "attenuate rd k (Suc n) v \<le> attenuate rd k n v"
    by (simp_all add: attenuate_Suc)
qed

lemma attenuate_strict:
  assumes "rounding rd" and "rd u = u" and "attenuate rd k n v * rd k \<le> u"
    and "u < attenuate rd k n v"
  shows "attenuate rd k (Suc n) v < attenuate rd k n v"
proof -
  have "rd (attenuate rd k n v * rd k) \<le> rd u"
    using assms(1,3) by (rule rounding_mono)
  then show ?thesis
    using assms(2,4) by (simp add: attenuate_Suc)
qed

lemma attenuate_zero: "rounding rd \<Longrightarrow> attenuate rd k n 0 = 0"
  using rounding_fixed [of rd] by (induction n) (simp_all add: attenuate_def)

text \<open>The example roundings are roundings, and under each the smallest positive value of
  its grid is not decreased by a decay: the product is rounded back to it.\<close>

lemma rounding_grid_round: "rounding (grid_round n)"
proof -
  have m: "grid_round n x \<le> grid_round n y" if "x \<le> y" for x y
  proof -
    have "x * 2 ^ n \<le> y * 2 ^ n" using that by simp
    then have "round (x * 2 ^ n) \<le> round (y * 2 ^ n)" by (rule round_mono)
    then show ?thesis by (simp add: grid_round_def divide_right_mono)
  qed
  have i: "grid_round n (grid_round n x) = grid_round n x" for x
    by (simp add: grid_round_def)
  have z: "grid_round n 0 = 0"
    by (simp add: grid_round_def)
  have "round ((2::real) ^ n) = round (of_int (2 ^ n) :: real)"
    by simp
  also have "\<dots> = 2 ^ n"
    by (rule round_of_int)
  finally have o: "grid_round n 1 = 1"
    by (simp add: grid_round_def)
  show ?thesis
    unfolding rounding_def using m i z o by blast
qed

lemma smallest_grid_value_sticks:
  assumes "0 < n" and "3 / 4 \<le> k" and "k \<le> 1"
  shows "grid_round n (1 / 2 ^ n * grid_round n k) = 1 / 2 ^ n"
proof -
  let ?x = "grid_round n k"
  have p: "(2::real) \<le> 2 ^ n"
    using assms(1) by (cases n) simp_all
  have "\<bar>of_int (round (k * 2 ^ n)) - k * 2 ^ n\<bar> \<le> 1 / 2"
    by (rule of_int_round_abs_le)
  then have "\<bar>of_int (round (k * 2 ^ n)) - k * 2 ^ n\<bar> / 2 ^ n \<le> (1 / 2) / 2 ^ n"
    by (rule divide_right_mono) simp
  moreover have "\<bar>of_int (round (k * 2 ^ n)) - k * 2 ^ n\<bar> / 2 ^ n = \<bar>?x - k\<bar>"
  proof -
    have "?x - k = (of_int (round (k * 2 ^ n)) - k * 2 ^ n) / 2 ^ n"
      by (simp add: grid_round_def diff_divide_distrib)
    then have "\<bar>?x - k\<bar> = \<bar>(of_int (round (k * 2 ^ n)) - k * 2 ^ n) / 2 ^ n\<bar>"
      by (rule arg_cong)
    also have "\<dots> = \<bar>of_int (round (k * 2 ^ n)) - k * 2 ^ n\<bar> / \<bar>(2::real) ^ n\<bar>"
      by (rule abs_divide)
    finally show ?thesis by simp
  qed
  moreover have "(1 / 2) / (2::real) ^ n \<le> 1 / 4"
    using p by (simp add: field_simps)
  ultimately have "\<bar>?x - k\<bar> \<le> 1 / 4"
    by linarith
  then have x: "1 / 2 \<le> ?x" "?x < 3 / 2"
    using assms(2,3) by linarith+
  have "round ?x = 1"
    unfolding round_def using x by (simp add: floor_eq_iff)
  moreover have "1 / 2 ^ n * ?x * 2 ^ n = ?x"
    by simp
  ultimately show ?thesis
    by (simp only: grid_round_def [of n "1 / 2 ^ n * grid_round n k"])
qed

lemma beatPulse_after_stale_frame:
  assumes "200 < now - lastFeatureTime st" and "beatPulse (features st) = JNum (Fin x)"
  shows "beatPulse (features (render rd conv now rnd st)) = JNum (Fin (rd (x * rd (9 / 10))))"
  using assms by (simp add: features_render decay_def)

text \<open>
  Claim C2, as stated, fails: a decay does not strictly decrease every value. In the
  state the script starts with every decayed field is 0, and a frame run 1000 ms after
  the last update leaves \<open>beatPulse\<close> at 0. The same holds of the smallest positive
  double, \<open>1 / 2 ^ 1074\<close>: its product with the factor is rounded back to it.
\<close>

theorem decay_not_strict_counterexample:
  "200 < 1000 - lastFeatureTime initial_state
   \<and> beatPulse (features initial_state) = JNum (Fin 0)
   \<and> beatPulse (features (render (grid_round 1074) conv_NaN 1000 (0, 0, 0) initial_state))
       = JNum (Fin 0)
   \<and> beatPulse (features (render (grid_round 1074) conv_NaN 1000 (0, 0, 0)
        (initial_state \<lparr> features := initial_features \<lparr> beatPulse := JNum (Fin (1 / 2 ^ 1074)) \<rparr> \<rparr>)))
       = JNum (Fin (1 / 2 ^ 1074))"
proof -
  let ?tiny = "initial_state \<lparr> features := initial_features \<lparr> beatPulse := JNum (Fin (1 / 2 ^ 1074)) \<rparr> \<rparr>"
  have z: "grid_round 1074 (0 * grid_round 1074 (9 / 10)) = 0"
    by (simp add: grid_round_def)
  have s: "grid_round 1074 (1 / 2 ^ 1074 * grid_round 1074 (9 / 10)) = 1 / 2 ^ 1074"
    by (rule smallest_grid_value_sticks) simp_all
  have t: "200 < 1000 - lastFeatureTime initial_state"
      "beatPulse (features initial_state) = JNum (Fin 0)"
    by (simp_all add: initial_state_def initial_features_def)
  have u: "200 < 1000 - lastFeatureTime ?tiny"
    by (simp add: initial_state_def)
  have "beatPulse (features (initial_state \<lparr> features := initial_features \<lparr> beatPulse := b \<rparr> \<rparr>)) = b"
    for b by simp
  then have v: "beatPulse (features ?tiny) = JNum (Fin (1 / 2 ^ 1074))" .
  have "beatPulse (features (render (grid_round 1074) conv_NaN 1000 (0, 0, 0) initial_state))
          = JNum (Fin 0)"
    using beatPulse_after_stale_frame [OF t, of "grid_round 1074" conv_NaN "(0, 0, 0)"]
    by (simp only: z)
  moreover have "beatPulse (features (render (grid_round 1074) conv_NaN 1000 (0, 0, 0) ?tiny))
          = JNum (Fin (1 / 2 ^ 1074))"
    using beatPulse_after_stale_frame [OF u v, of "grid_round 1074" conv_NaN "(0, 0, 0)"]
    by (simp only: s)
  ultimately show ?thesis
    using t by blast
qed

text \<open>
  Claim C2, amended. While no update has arrived for more than 200 ms, every frame
  replaces \<open>beatPulse\<close> by its rounded product with the double of 0.9, and \<open>amplitude\<close>,
  \<open>energyLow\<close>, \<open>energyMid\<close> and \<open>energyHigh\<close> by theirs with the double of 0.95, and sets
  \<open>isBeat\<close> to false. So after \<open>n\<close> such frames a field that held the finite number \<open>v\<close>
  holds \<open>attenuate rd k n v\<close> for its factor \<open>k\<close>, the \<open>n\<close>-fold rounded product. When \<open>v\<close>
  is a double that is not negative, no frame increases the value and none takes it
  below zero; a frame strictly decreases it whenever some double lies from the exact
  product up to, but not at, the value; and a zero stays zero.
\<close>

theorem stale_frames_attenuate:
  assumes "\<forall>x y. x \<le> y \<longrightarrow> rd x \<le> rd y" and "\<forall>x. rd (rd x) = rd x"
    and "rd 0 = 0" and "rd 1 = 1"
    and "\<forall>ev \<in> set evs. \<exists>now rnd. ev = Frame now rnd \<and> 200 < now - lastFeatureTime st"
  shows "(evs \<noteq> [] \<longrightarrow> isBeat (features (run rd conv JSON_parse F st evs)) = JBool False)
    \<and> (\<forall>(g, k) \<in> set [(beatPulse, 9 / 10), (amplitude, 19 / 20), (energyLow, 19 / 20),
                        (energyMid, 19 / 20), (energyHigh, 19 / 20)].
        \<forall>v. g (features st) = JNum (Fin v) \<longrightarrow>
          g (features (run rd conv JSON_parse F st evs))
            = JNum (Fin (attenuate rd k (length evs) v))
        \<and> (\<forall>n. attenuate rd k 0 v = v
               \<and> attenuate rd k (Suc n) v = rd (attenuate rd k n v * rd k))
        \<and> (rd v = v \<and> 0 \<le> v \<longrightarrow>
             (\<forall>n. 0 \<le> attenuate rd k (Suc n) v
                \<and> attenuate rd k (Suc n) v \<le> attenuate rd k n v
                \<and> attenuate rd k n v \<le> v
                \<and> ((\<exists>u. rd u = u \<and> attenuate rd k n v * rd k \<le> u \<and> u < attenuate rd k n v)
                      \<longrightarrow> attenuate rd k (Suc n) v < attenuate rd k n v)))
        \<and> (v = 0 \<longrightarrow> g (features (run rd conv JSON_parse F st evs)) = JNum (Fin 0)))"
proof -
  have R: "rounding rd"
    using assms(1-4) by (simp add: rounding_def)
  have S: "list_all (stale_frame (lastFeatureTime st)) evs"
    using assms(5) by (fastforce simp: list_all_iff stale_frame_def)
  note r = stale_run [OF S, of rd conv JSON_parse F]
  have b: "0 \<le> attenuate rd k (Suc n) v \<and> attenuate rd k (Suc n) v \<le> attenuate rd k n v
      \<and> attenuate rd k n v \<le> v
      \<and> ((\<exists>u. rd u = u \<and> attenuate rd k n v * rd k \<le> u \<and> u < attenuate rd k n v)
            \<longrightarrow> attenuate rd k (Suc n) v < attenuate rd k n v)"
    if "0 \<le> k" "k \<le> 1" "rd v = v" "0 \<le> v" for k v n
    using attenuate_decreases [OF R that, of n] attenuate_bounds [OF R that, of n]
      attenuate_strict [OF R, of _ k n v]
    by blast
  have e: "attenuate rd k 0 v = v \<and> attenuate rd k (Suc n) v = rd (attenuate rd k n v * rd k)"
    for k v n
    by (simp add: attenuate_def)
  show ?thesis
    using r b [of "9 / 10"] b [of "19 / 20"] e attenuate_zero [OF R]
    by (simp add: decay_pow decay_isBeat)
qed

theorem stale_frames_attenuate_witness:
  "grid_round 4 0 = 0 \<and> grid_round 4 1 = 1
   \<and> 200 < 500 - lastFeatureTime initial_state \<and> 200 < 516 - lastFeatureTime initial_state
   \<and> beatPulse (features (run (grid_round 4) conv_NaN parse_literal plain_array
        (initial_state \<lparr> features := initial_features \<lparr> beatPulse := JNum (Fin 1),
                                                         isBeat := JBool True \<rparr> \<rparr>)
        [Frame 500 (0, 0, 0), Frame 516 (0, 0, 0)])) = JNum (Fin (3 / 4))
   \<and> isBeat (features (run (grid_round 4) conv_NaN parse_literal plain_array
        (initial_state \<lparr> features := initial_features \<lparr> beatPulse := JNum (Fin 1),
                                                         isBeat := JBool True \<rparr> \<rparr>)
        [Frame 500 (0, 0, 0), Frame 516 (0, 0, 0)])) = JBool False"
proof -
  let ?st = "initial_state \<lparr> features := initial_features \<lparr> beatPulse := JNum (Fin 1),
                                                            isBeat := JBool True \<rparr> \<rparr>"
  let ?evs = "[Frame 500 (0, 0, 0), Frame 516 (0, 0, 0)]"
  have g: "\<forall>x y. x \<le> y \<longrightarrow> grid_round 4 x \<le> grid_round 4 y"
      "\<forall>x. grid_round 4 (grid_round 4 x) = grid_round 4 x"
      "grid_round 4 0 = 0" "grid_round 4 1 = 1"
    using rounding_grid_round [of 4] unfolding rounding_def by blast+
  have t: "200 < 500 - lastFeatureTime initial_state" "200 < 516 - lastFeatureTime initial_state"
    by (simp_all add: initial_state_def)
  have h: "\<forall>ev \<in> set ?evs. \<exists>now rnd. ev = Frame now rnd \<and> 200 < now - lastFeatureTime ?st"
    by (simp add: initial_state_def)
  have a: "attenuate (grid_round 4) (9 / 10) (length ?evs) 1 = 3 / 4"
    by (simp add: attenuate_def grid_round_def round_def)
  note T = stale_frames_attenuate [OF g h, of conv_NaN parse_literal plain_array]
  have "beatPulse (features (run (grid_round 4) conv_NaN parse_literal plain_array ?st ?evs))
          = JNum (Fin (attenuate (grid_round 4) (9 / 10) (length ?evs) 1))"
    using T by simp
  moreover have "isBeat (features (run (grid_round 4) conv_NaN parse_literal plain_array ?st ?evs))
          = JBool False"
    using T by simp
  ultimately show ?thesis
    using g(3,4) t a by simp
qed

section \<open>Feature updates\<close>

lemma truthy_get_prop: "truthy (get_prop f k) \<Longrightarrow> truthy f"
  by (cases f) simp_all

lemma js_or_not_nullish: "\<not> nullish d \<Longrightarrow> \<not> nullish (js_or a d)"
  by (cases a) (auto simp: js_or_def nullish_def)

lemma default_not_nullish: "(g, k, d) \<in> set scalar_fields \<Longrightarrow> \<not> nullish d"
  by (auto simp: scalar_fields_def nullish_def)

text \<open>Whether or not a constructor throws later, the twelve scalars are assigned.\<close>

lemma scalars_after_update:
  assumes "truthy f" and "(g, k, d) \<in> set scalar_fields"
  shows "g (after (updateFeatures F f fs)) = js_or (get_prop f k) d"
  using assms
  by (auto simp: scalar_fields_def updateFeatures_def assign_scalars_def assign_waveform_def
        assign_fftMagnitudes_def Let_def split: sum.splits)

lemma waveform_after_update:
  "waveform (after (updateFeatures F f fs)) =
     (if truthy f \<and> truthy (get_prop f ''waveform'')
      then (case F (get_prop f ''waveform'') of Inl e \<Rightarrow> waveform fs | Inr a \<Rightarrow> a)
      else waveform fs)"
  by (auto simp: updateFeatures_def assign_scalars_def assign_waveform_def
        assign_fftMagnitudes_def Let_def split: sum.splits)

lemma fftMagnitudes_after_update:
  "fftMagnitudes (after (updateFeatures F f fs)) =
     (if truthy f \<and> truthy (get_prop f ''fftMagnitudes'')
         \<and> \<not> (truthy (get_prop f ''waveform'') \<and> isl (F (get_prop f ''waveform'')))
      then (case F (get_prop f ''fftMagnitudes'') of Inl e \<Rightarrow> fftMagnitudes fs | Inr a \<Rightarrow> a)
      else fftMagnitudes fs)"
  by (auto simp: updateFeatures_def assign_scalars_def assign_waveform_def
        assign_fftMagnitudes_def Let_def split: sum.splits)

text \<open>
  Claim C1, as stated, fails: a field that is present with a value of the wrong type
  is not replaced by its default. An update whose \<open>energyLow\<close> is the string \<open>loud\<close>
  leaves that string in the features: it is truthy, so \<^verbatim>\<open>f.energyLow || 0\<close> is the
  string. It is neither the default 0 nor the value the field had.
\<close>

theorem invalid_field_is_stored_counterexample:
  "energyLow (after (updateFeatures plain_array loud_update initial_features)) = JStr ''loud''
   \<and> JStr ''loud'' \<noteq> JNum (Fin 0)
   \<and> JStr ''loud'' \<noteq> energyLow initial_features"
  by (simp add: loud_update_def updateFeatures_def assign_scalars_def assign_waveform_def
        assign_fftMagnitudes_def Let_def js_or_def initial_features_def)

text \<open>
  Claim C1, amended. An update that is falsy changes nothing. Otherwise each of the
  twelve scalar fields is set to its default (0, false, 120 for the tempo, 0.5 for the
  brightness) when its value in the update is absent or falsy (undefined, null, false,
  0, NaN or the empty string), and to that value as it is, whatever its type, when it is
  truthy. From features with no scalar field undefined or null, no scalar field is
  undefined or null after the call. A sequence field whose value in the update is
  absent or falsy is left unchanged, and when the call returns, a sequence field whose
  value is truthy is the array the constructor built from it.
\<close>

theorem update_falls_back_on_falsy_fields:
  assumes "\<forall>(g, k, d) \<in> set scalar_fields. \<not> nullish (g fs)"
  shows "(\<not> truthy f \<longrightarrow> updateFeatures F f fs = Inr fs)
    \<and> (truthy f \<longrightarrow>
         (\<forall>(g, k, d) \<in> set scalar_fields.
            (\<not> truthy (get_prop f k) \<longrightarrow> g (after (updateFeatures F f fs)) = d)
          \<and> (truthy (get_prop f k) \<longrightarrow> g (after (updateFeatures F f fs)) = get_prop f k)))
    \<and> (\<forall>(g, k, d) \<in> set scalar_fields. \<not> nullish (g (after (updateFeatures F f fs))))
    \<and> (\<not> truthy (get_prop f ''waveform'')
          \<longrightarrow> waveform (after (updateFeatures F f fs)) = waveform fs)
    \<and> (\<not> truthy (get_prop f ''fftMagnitudes'')
          \<longrightarrow> fftMagnitudes (after (updateFeatures F f fs)) = fftMagnitudes fs)
    \<and> (\<forall>fs'. updateFeatures F f fs = Inr fs' \<longrightarrow>
          (\<forall>a. truthy (get_prop f ''waveform'') \<and> F (get_prop f ''waveform'') = Inr a
                \<longrightarrow> waveform fs' = a)
        \<and> (\<forall>a. truthy (get_prop f ''fftMagnitudes'') \<and> F (get_prop f ''fftMagnitudes'') = Inr a
                \<longrightarrow> fftMagnitudes fs' = a))"
proof (intro conjI)
  show "\<not> truthy f \<longrightarrow> updateFeatures F f fs = Inr fs"
    by (simp add: updateFeatures_def)
  show "truthy f \<longrightarrow>
         (\<forall>(g, k, d) \<in> set scalar_fields.
            (\<not> truthy (get_prop f k) \<longrightarrow> g (after (updateFeatures F f fs)) = d)
          \<and> (truthy (get_prop f k) \<longrightarrow> g (after (updateFeatures F f fs)) = get_prop f k))"
    by (auto simp: scalars_after_update js_or_def)
  show "\<forall>(g, k, d) \<in> set scalar_fields. \<not> nullish (g (after (updateFeatures F f fs)))"
  proof (cases "truthy f")
    case True
    then show ?thesis
      using default_not_nullish js_or_not_nullish
      by (fastforce simp: scalars_after_update)
  next
    case False
    then show ?thesis using assms by (simp add: updateFeatures_def)
  qed
  show "\<not> truthy (get_prop f ''waveform'')
          \<longrightarrow> waveform (after (updateFeatures F f fs)) = waveform fs"
    by (simp add: waveform_after_update)
  show "\<not> truthy (get_prop f ''fftMagnitudes'')
          \<longrightarrow> fftMagnitudes (after (updateFeatures F f fs)) = fftMagnitudes fs"
    by (simp add: fftMagnitudes_after_update)
  show "\<forall>fs'. updateFeatures F f fs = Inr fs' \<longrightarrow>
          (\<forall>a. truthy (get_prop f ''waveform'') \<and> F (get_prop f ''waveform'') = Inr a
                \<longrightarrow> waveform fs' = a)
        \<and> (\<forall>a. truthy (get_prop f ''fftMagnitudes'') \<and> F (get_prop f ''fftMagnitudes'') = Inr a
                \<longrightarrow> fftMagnitudes fs' = a)"
    by (auto simp: updateFeatures_def assign_scalars_def assign_waveform_def
          assign_fftMagnitudes_def Let_def split: sum.splits if_splits dest: truthy_get_prop)
qed

theorem update_falls_back_on_falsy_fields_witness:
  "energyLow (after (updateFeatures plain_array partial_update initial_features)) = JNum (Fin (4 / 5))
   \<and> isBeat (after (updateFeatures plain_array partial_update initial_features)) = JBool True
   \<and> brightness (after (updateFeatures plain_array partial_update initial_features)) = JNum (Fin (1 / 2))
   \<and> tempoBpm (after (updateFeatures plain_array partial_update initial_features)) = JNum (Fin 120)
   \<and> beatPulse (after (updateFeatures plain_array partial_update initial_features)) = JNum (Fin 0)
   \<and> waveform (after (updateFeatures plain_array partial_update initial_features))
       = waveform initial_features"
  using update_falls_back_on_falsy_fields [of initial_features partial_update plain_array]
  by (simp add: scalar_fields_def initial_features_def nullish_def partial_update_def)


section \<open>The sampling of the waveform\<close>

text \<open>The remainder of a floor that is not negative is the remainder of naturals.\<close>

lemma js_rem_floor_nonneg:
  assumes "0 \<le> a" and "0 < len"
  shows "js_rem (Math_floor (Fin a)) (Fin (real len)) = Fin (real (nat \<lfloor>a\<rfloor> mod len))"
proof -
  let ?n = "\<lfloor>a\<rfloor>"
  have n: "0 \<le> ?n" using assms(1) by simp
  have q: "0 \<le> (of_int ?n :: real) / real len" using n by simp
  have "js_trunc (of_int ?n / real len) = \<lfloor>(of_int ?n :: real) / of_int (int len)\<rfloor>"
    using q by (simp add: js_trunc_def)
  also have "\<dots> = ?n div int len"
    by (rule floor_divide_of_int_eq)
  finally have t: "js_trunc (of_int ?n / real len) = ?n div int len" .
  have "(of_int ?n :: real) - real len * of_int (?n div int len)
          = of_int (?n - int len * (?n div int len))"
    by simp
  also have "?n - int len * (?n div int len) = ?n mod int len"
    by (simp add: minus_mult_div_eq_mod)
  also have "?n mod int len = int (nat ?n mod len)"
    using n by (simp add: zmod_int)
  finally have "(of_int ?n :: real) - real len * of_int (?n div int len) = real (nat ?n mod len)"
    by simp
  then show ?thesis using assms(2) t by simp
qed

lemma index_of_nonneg_in_bounds:
  assumes "0 \<le> a" and "0 < length wave"
  defines "i \<equiv> js_rem (Math_floor (Fin a)) (Fin (real (length wave)))"
  shows "\<exists>k<length wave. i = Fin (real k) \<and> Math_abs i = i
            \<and> array_get wave (Math_abs i) = JNum (wave ! k)"
proof -
  let ?k = "nat \<lfloor>a\<rfloor> mod length wave"
  have k: "?k < length wave" using assms(2) by simp
  have i: "i = Fin (real ?k)"
    unfolding i_def by (rule js_rem_floor_nonneg [OF assms(1,2)])
  have "array_get wave (Fin (real ?k)) = JNum (wave ! ?k)"
    using k by (simp add: array_get_def)
  then show ?thesis using k i by (intro exI [of _ ?k]) simp
qed

lemma ring_wIdx_in_bounds:
  assumes "0 \<le> off" and "0 < length wave"
  shows "\<exists>k<length wave. ring_wIdx off (length wave) p = Fin (real k)
            \<and> Math_abs (ring_wIdx off (length wave) p) = ring_wIdx off (length wave) p
            \<and> array_get wave (Math_abs (ring_wIdx off (length wave) p)) = JNum (wave ! k)"
proof -
  have "0 \<le> (real p / real pts + off) * real (length wave)"
    using assms(1) by simp
  from index_of_nonneg_in_bounds [OF this assms(2)] show ?thesis
    by (simp add: ring_wIdx_def pts_def)
qed

lemma ribbon_wIdx_in_bounds:
  assumes "0 < w" and "0 \<le> tm" and "0 \<le> x" and "0 < length wave"
  shows "\<exists>k<length wave. ribbon_wIdx w tm (length wave) r x = Fin (real k)
            \<and> Math_abs (ribbon_wIdx w tm (length wave) r x) = ribbon_wIdx w tm (length wave) r x
            \<and> array_get wave (Math_abs (ribbon_wIdx w tm (length wave) r x)) = JNum (wave ! k)"
proof -
  have "0 \<le> (x / w + real r * (1 / 10) + tm * (1 / 20)) * real (length wave)"
    using assms(1,2,3) by simp
  from index_of_nonneg_in_bounds [OF this assms(4)] show ?thesis
    using assms(1) by (simp add: ribbon_wIdx_def)
qed

lemma ring_indices_in_bounds:
  assumes "wave \<noteq> []" and "0 \<le> waveOff rg"
  shows "\<forall>i \<in> set (ring_indices rg wave).
           \<exists>k<length wave. i = Fin (real k) \<and> Math_abs i = i
              \<and> array_get wave (Math_abs i) = JNum (wave ! k)"
  using assms ring_wIdx_in_bounds [OF assms(2), of wave]
  by (auto simp: ring_indices_def)

lemma ribbon_indices_in_bounds:
  assumes "wave \<noteq> []" and "0 < w" and "0 \<le> tm"
  shows "\<forall>i \<in> set (ribbon_indices w tm wave).
           \<exists>k<length wave. i = Fin (real k) \<and> Math_abs i = i
              \<and> array_get wave (Math_abs i) = JNum (wave ! k)"
proof
  fix i assume "i \<in> set (ribbon_indices w tm wave)"
  then obtain r x where i: "i = ribbon_wIdx w tm (length wave) r x" and x: "0 \<le> x"
    using assms(1) by (auto simp: ribbon_indices_def ribbon_xs_def)
  show "\<exists>k<length wave. i = Fin (real k) \<and> Math_abs i = i
              \<and> array_get wave (Math_abs i) = JNum (wave ! k)"
    unfolding i using ribbon_wIdx_in_bounds [OF assms(2,3) x, of wave r] assms(1) by simp
qed

text \<open>The clock, the width and the wave offsets stay in range along every run in which
  the host keeps its part.\<close>

lemma waveOff_advance_ring: "waveOff (advance_ring speed maxR rg) = waveOff rg"
  by (simp add: advance_ring_def Let_def)

lemma waveOff_spawn_ring:
  assumes "list_all (\<lambda>rg. 0 \<le> waveOff rg) rings" and "0 \<le> r3"
  shows "list_all (\<lambda>rg. 0 \<le> waveOff rg) (spawn_ring conv fs (r1, r2, r3) rings)"
  using assms by (simp add: spawn_ring_def Let_def)

lemma waveOff_ring_loop:
  assumes "list_all (\<lambda>rg. 0 \<le> waveOff rg) rings"
  shows "list_all (\<lambda>rg. 0 \<le> waveOff rg) (ring_loop speed maxR (length rings) rings)"
  using assms by (auto simp: ring_loop_filter list_all_iff waveOff_advance_ring)

lemma sampling_state_handleMessage:
  "sampling_state (after (handleMessage JSON_parse F now d st)) = sampling_state st"
  by (auto simp: handleMessage_def sampling_state_def split: option.splits sum.splits)

lemma sampling_state_render:
  assumes "sampling_state st" and "0 \<le> r3"
  shows "sampling_state (render rd conv now (r1, r2, r3) st)"
  using assms
  by (simp add: render_def dispatch_def decayIfStale_def drawNebula_def drawRibbonFlow_def
        drawPulseGrid_def drawBassTunnel_def Let_def sampling_state_def
        waveOff_ring_loop waveOff_spawn_ring)

lemma sampling_state_step:
  assumes "sampling_state st" and "host_event ev"
  shows "sampling_state (step rd conv JSON_parse F st ev)"
proof (cases ev)
  case (Message d now)
  then show ?thesis using assms(1) by (simp add: sampling_state_handleMessage)
next
  case (Frame now rnd)
  obtain r1 r2 r3 where r: "rnd = (r1, r2, r3)" by (cases rnd)
  then have "0 \<le> r3" using assms(2) Frame by (simp add: host_event_def)
  then show ?thesis using assms(1) Frame r by (simp add: sampling_state_render)
next
  case (Resize w h)
  then show ?thesis using assms by (simp add: sampling_state_def host_event_def)
qed

lemma sampling_state_run:
  assumes "sampling_state st" and "list_all host_event evs"
  shows "sampling_state (run rd conv JSON_parse F st evs)"
  using assms unfolding run_def
  by (induction evs arbitrary: st) (simp_all add: sampling_state_step)

lemma sampling_state_initial: "sampling_state initial_state"
  by (simp add: sampling_state_def initial_state_def)

text \<open>
  Claim C8, as stated, fails: when the surface has width 0 the ribbons still take the
  sample at x = 0, where \<^verbatim>\<open>t = x / width\<close> is 0 / 0. After a resize to 0 by 0 and the
  selection of the ribbons, the frame computes the index NaN for each of the six
  ribbons, on a waveform of 128 samples; the absolute value of NaN is NaN, and the read
  of the waveform at it is undefined.
\<close>

theorem zero_width_index_is_NaN_counterexample:
  "length (waveform (features (run (grid_round 4) conv_NaN parse_literal plain_array initial_state
        [Resize 0 0, Message select_ribbons 0, Frame 16 (1 / 2, 1 / 2, 1 / 2)]))) = 128
   \<and> activeVizIndex (run (grid_round 4) conv_NaN parse_literal plain_array initial_state
        [Resize 0 0, Message select_ribbons 0, Frame 16 (1 / 2, 1 / 2, 1 / 2)]) = JNum (Fin 2)
   \<and> ribbon_indices
        (width (run (grid_round 4) conv_NaN parse_literal plain_array initial_state
           [Resize 0 0, Message select_ribbons 0, Frame 16 (1 / 2, 1 / 2, 1 / 2)]))
        (time (run (grid_round 4) conv_NaN parse_literal plain_array initial_state
           [Resize 0 0, Message select_ribbons 0, Frame 16 (1 / 2, 1 / 2, 1 / 2)]))
        (waveform (features (run (grid_round 4) conv_NaN parse_literal plain_array initial_state
           [Resize 0 0, Message select_ribbons 0, Frame 16 (1 / 2, 1 / 2, 1 / 2)])))
       = [NaN, NaN, NaN, NaN, NaN, NaN]
   \<and> array_get
        (waveform (features (run (grid_round 4) conv_NaN parse_literal plain_array initial_state
           [Resize 0 0, Message select_ribbons 0, Frame 16 (1 / 2, 1 / 2, 1 / 2)])))
        (Math_abs NaN) = JUndefined"
proof -
  let ?st = "run (grid_round 4) conv_NaN parse_literal plain_array initial_state
        [Resize 0 0, Message select_ribbons 0, Frame 16 (1 / 2, 1 / 2, 1 / 2)]"
  have w: "width ?st = 0" and i: "activeVizIndex ?st = JNum (Fin 2)"
    and f: "waveform (features ?st) = replicate 128 (Fin 0)"
    by (simp_all add: select_ribbons_def eval_defs drawRibbonFlow_def initial_features_def)
  have l: "length (waveform (features ?st)) = 128"
    unfolding f by simp
  have n: "ribbon_wIdx 0 tm 128 r 0 = NaN" for tm r
    by (simp add: ribbon_wIdx_def)
  have x: "ribbon_xs 0 = [0]"
    by (simp add: ribbon_xs_def)
  have u: "[0 ..< 6] = [0, 1, 2, 3, 4, 5 :: nat]"
    by (simp add: upt_rec)
  have "ribbon_indices (width ?st) (time ?st) (waveform (features ?st))
          = [NaN, NaN, NaN, NaN, NaN, NaN]"
    unfolding ribbon_indices_def l w x u by (simp add: n)
  moreover have "array_get (waveform (features ?st)) (Math_abs NaN) = JUndefined"
    by (simp add: array_get_def)
  ultimately show ?thesis
    using l i by simp
qed

text \<open>
  Claim C8, amended. Take a state in which the clock is not negative, the surface is at
  least one pixel wide and no ring has a negative wave offset (the state the script
  starts with is one), and any run from it in which \<^verbatim>\<open>Math.random()\<close> is never negative
  and every resize gives a width of at least 1. If the waveform then has a positive
  length, every index computed for a ring of the tunnel and every index computed by the
  ribbons at that clock and width is a whole number \<open>k\<close> with \<open>0 \<le> k < length\<close>: the
  absolute value leaves it as it is, and the read of the waveform at it gives an
  element.
\<close>

theorem waveform_samples_in_bounds:
  assumes "0 \<le> time st" and "1 \<le> width st" and "\<forall>rg \<in> set (tunnelRings st). 0 \<le> waveOff rg"
    and "\<forall>now r1 r2 r3. Frame now (r1, r2, r3) \<in> set evs \<longrightarrow> 0 \<le> r3"
    and "\<forall>w h. Resize w h \<in> set evs \<longrightarrow> 1 \<le> w"
    and "st' = run rd conv JSON_parse F st evs" and "wave = waveform (features st')"
    and "wave \<noteq> []"
  shows "\<forall>i \<in> (\<Union>rg \<in> set (tunnelRings st'). set (ring_indices rg wave))
               \<union> set (ribbon_indices (width st') (time st') wave).
           \<exists>k<length wave. i = Fin (real k) \<and> Math_abs i = i
              \<and> array_get wave (Math_abs i) = JNum (wave ! k)"
proof
  fix i
  assume i: "i \<in> (\<Union>rg \<in> set (tunnelRings st'). set (ring_indices rg wave))
                 \<union> set (ribbon_indices (width st') (time st') wave)"
  have s0: "sampling_state st"
    using assms(1,2,3) by (simp add: sampling_state_def list_all_iff)
  have "host_event ev" if "ev \<in> set evs" for ev
  proof (cases ev)
    case (Message d now)
    then show ?thesis by (simp add: host_event_def)
  next
    case (Frame now rnd)
    then show ?thesis
      using that assms(4) by (cases rnd) (auto simp: host_event_def)
  next
    case (Resize w h)
    then show ?thesis
      using that assms(5) by (auto simp: host_event_def)
  qed
  then have hs: "list_all host_event evs"
    by (simp add: list_all_iff)
  have "sampling_state st'"
    unfolding assms(6) by (rule sampling_state_run [OF s0 hs])
  then have tm: "0 \<le> time st'" and w: "0 < width st'"
    and off: "\<And>rg. rg \<in> set (tunnelRings st') \<Longrightarrow> 0 \<le> waveOff rg"
    by (simp_all add: sampling_state_def list_all_iff)
  from i consider (ring) rg where "rg \<in> set (tunnelRings st')" "i \<in> set (ring_indices rg wave)"
    | (ribbon) "i \<in> set (ribbon_indices (width st') (time st') wave)"
    by blast
  then show "\<exists>k<length wave. i = Fin (real k) \<and> Math_abs i = i
              \<and> array_get wave (Math_abs i) = JNum (wave ! k)"
  proof cases
    case ring
    from ring_indices_in_bounds [OF assms(8) off [OF ring(1)]] ring(2)
    show ?thesis by blast
  next
    case ribbon
    from ribbon_indices_in_bounds [OF assms(8) w tm] ribbon
    show ?thesis by blast
  qed
qed

theorem waveform_samples_in_bounds_witness:
  "0 \<le> time initial_state \<and> 1 \<le> width initial_state \<and> tunnelRings initial_state = []
   \<and> waveform (features (run (grid_round 4) conv_NaN parse_literal plain_array initial_state tunnel_events)) \<noteq> []
   \<and> map waveOff (tunnelRings (run (grid_round 4) conv_NaN parse_literal plain_array initial_state tunnel_events))
       = [1 / 2]
   \<and> (\<exists>k<128. ring_wIdx (1 / 2) 128 36 = Fin (real k))
   \<and> (\<exists>k<128. ribbon_wIdx 1920 (2 / 125) 128 5 4 = Fin (real k))"
proof -
  let ?st = "run (grid_round 4) conv_NaN parse_literal plain_array initial_state tunnel_events"
  let ?wave = "replicate 128 (Fin 0) :: jsnum list"
  have h1: "0 \<le> time initial_state" "1 \<le> width initial_state"
      "\<forall>rg \<in> set (tunnelRings initial_state). 0 \<le> waveOff rg"
    and h0: "tunnelRings initial_state = []"
    by (simp_all add: initial_state_def)
  have h2: "\<forall>now r1 r2 r3. Frame now (r1, r2, r3) \<in> set tunnel_events \<longrightarrow> 0 \<le> r3"
      "\<forall>w h. Resize w h \<in> set tunnel_events \<longrightarrow> 1 \<le> w"
    by (auto simp: tunnel_events_def)
  have wv: "?wave = waveform (features ?st)"
    by (simp add: tunnel_events_def select_tunnel_def partial_update_def eval_defs
          initial_features_def)
  have ne: "?wave \<noteq> []"
    by simp
  have rings: "map waveOff (tunnelRings ?st) = [1 / 2]"
    by (simp add: tunnel_events_def select_tunnel_def partial_update_def eval_defs)
  have wd: "width ?st = 1920" and tm: "time ?st = 2 / 125"
    by (simp_all add: tunnel_events_def select_tunnel_def partial_update_def eval_defs)
  obtain rg where rg: "rg \<in> set (tunnelRings ?st)" "waveOff rg = 1 / 2"
    using rings by (cases "tunnelRings ?st") auto
  have l: "length ?wave = 128"
    by simp
  have m1: "ring_wIdx (1 / 2) 128 36 \<in> set (ring_indices rg ?wave)"
    unfolding ring_indices_def l rg(2) by (simp add: pts_def)
  have "ribbon_wIdx 1920 (2 / 125) 128 5 (4 * real (Suc 0))
          \<in> set (ribbon_indices (width ?st) (time ?st) ?wave)"
    unfolding ribbon_indices_def ribbon_xs_def l wd tm
    by (simp del: of_nat_Suc) (rule bexI [of _ 5], rule image_eqI [of _ _ "Suc 0"], simp_all)
  then have m2: "ribbon_wIdx 1920 (2 / 125) 128 5 4
                   \<in> set (ribbon_indices (width ?st) (time ?st) ?wave)"
    by simp
  have b: "\<forall>i \<in> (\<Union>rg \<in> set (tunnelRings ?st). set (ring_indices rg ?wave))
                 \<union> set (ribbon_indices (width ?st) (time ?st) ?wave).
             \<exists>k<128. i = Fin (real k) \<and> Math_abs i = i
                \<and> array_get ?wave (Math_abs i) = JNum (?wave ! k)"
    using waveform_samples_in_bounds [OF h1 h2 refl wv ne] unfolding l .
  have "\<exists>k<128. ring_wIdx (1 / 2) 128 36 = Fin (real k)"
    using b m1 rg(1) by blast
  moreover have "\<exists>k<128. ribbon_wIdx 1920 (2 / 125) 128 5 4 = Fin (real k)"
    using b m2 by blast
  ultimately show ?thesis using h1(1,2) h0 wv ne rings by metis
qed

end
